theory Spec2Isabelle
  imports Complex_Main
begin

section \<open>Numbers and vectors\<close>

text \<open>
  JavaScript numbers are modelled as mathematical reals: rounding, infinities and NaN of
  IEEE doubles are outside the model. Where the source could divide by zero the model
  writes the JavaScript outcome as a branch of its own.
\<close>

text \<open>
  \<^verbatim>\<open>THREE.Vector3\<close>: the fields \<^verbatim>\<open>x\<close>, \<^verbatim>\<open>y\<close>, \<^verbatim>\<open>z\<close>, written \<open>vx\<close>, \<open>vy\<close>, \<open>vz\<close>
  so that they do not capture variable names.
\<close>

record Vector3 =
  vx :: real
  vy :: real
  vz :: real

text \<open>
  Reading a JavaScript array at an integer index: \<^verbatim>\<open>undefined\<close> (here \<open>None\<close>)
  outside the array.
\<close>

definition js_index :: "'a list \<Rightarrow> int \<Rightarrow> 'a option" where
  "js_index xs i = (if 0 \<le> i \<and> i < int (length xs) then Some (xs ! nat i) else None)"

section \<open>terrain.js: TerrainGenerator\<close>

text \<open>
  The fields of \<^verbatim>\<open>TerrainGenerator\<close> that the height query reads. The field
  \<^verbatim>\<open>size\<close> is written \<open>size_terrain\<close> (\<open>size\<close> is a constant of HOL).
\<close>

record TerrainGenerator =
  size_terrain :: real
  segments :: nat
  heightScale :: real
  heightData :: "real list list"

text \<open>The constructor: a terrain of side 1000 with 256 segments and no height data yet.\<close>

definition TerrainGenerator_new :: TerrainGenerator where
  "TerrainGenerator_new =
     \<lparr>size_terrain = 1000, segments = 256, heightScale = 50, heightData = []\<rparr>"

text \<open>
  \<^verbatim>\<open>getHeightAt(x, z)\<close>. With \<^verbatim>\<open>size = 0\<close> the quotient is an infinity or NaN in
  JavaScript: the bounds check returns 0 for the infinities, and the array read at NaN is
  \<^verbatim>\<open>undefined\<close>, so the result is 0 as well. \<^verbatim>\<open>heightData[nx][nz] || 0\<close> turns
  \<^verbatim>\<open>undefined\<close> into 0 (and leaves a stored 0 as 0).
\<close>

definition getHeightAt :: "TerrainGenerator \<Rightarrow> real \<Rightarrow> real \<Rightarrow> real" where
  "getHeightAt t x z =
     (if length (heightData t) = 0 then 0
      else if size_terrain t = 0 then 0
      else
        let nx = \<lfloor>((x + size_terrain t / 2) / size_terrain t) * real (segments t)\<rfloor>;
            nz = \<lfloor>((z + size_terrain t / 2) / size_terrain t) * real (segments t)\<rfloor>
        in if nx < 0 \<or> nx \<ge> int (segments t) \<or> nz < 0 \<or> nz \<ge> int (segments t) then 0
           else (case js_index (heightData t) nx of
                   None \<Rightarrow> 0
                 | Some row \<Rightarrow> (case js_index row nz of None \<Rightarrow> 0 | Some h \<Rightarrow> h)))"

section \<open>camera-controller.js: CameraController\<close>

subsection \<open>The vector operations of three.js that the controller calls\<close>

definition add_v :: "Vector3 \<Rightarrow> Vector3 \<Rightarrow> Vector3" where
  "add_v a b = \<lparr>vx = vx a + vx b, vy = vy a + vy b, vz = vz a + vz b\<rparr>"

definition multiplyScalar :: "Vector3 \<Rightarrow> real \<Rightarrow> Vector3" where
  "multiplyScalar a k = \<lparr>vx = vx a * k, vy = vy a * k, vz = vz a * k\<rparr>"

definition crossVectors :: "Vector3 \<Rightarrow> Vector3 \<Rightarrow> Vector3" where
  "crossVectors a b =
     \<lparr>vx = vy a * vz b - vz a * vy b,
      vy = vz a * vx b - vx a * vz b,
      vz = vx a * vy b - vy a * vx b\<rparr>"

text \<open>\<^verbatim>\<open>normalize()\<close> divides by \<^verbatim>\<open>length() || 1\<close>.\<close>

definition normalize :: "Vector3 \<Rightarrow> Vector3" where
  "normalize a =
     (let l = sqrt (vx a * vx a + vy a * vy a + vz a * vz a);
          k = (if l = 0 then 1 else l)
      in \<lparr>vx = vx a / k, vy = vy a / k, vz = vz a / k\<rparr>)"

subsection \<open>State\<close>

text \<open>\<^verbatim>\<open>this.keys\<close>: the input intents.\<close>

record Keys =
  forward :: bool
  backward :: bool
  left :: bool
  right :: bool
  up :: bool
  down :: bool
  run :: bool

text \<open>
  One entry of the array \<^verbatim>\<open>raycaster.intersectObjects\<close> returns: the name of the object
  hit, the distance from the ray origin and the point hit.
\<close>

record Intersection =
  objectName :: string
  distance :: real
  point :: Vector3

text \<open>
  What a tick reads from three.js and the scene, taken as inputs of the model:
  \<^verbatim>\<open>camera.getWorldDirection\<close>, the rotation \<^verbatim>\<open>v.applyEuler(this.euler)\<close>, and the
  hits of the ray cast straight down (direction (0, -1, 0)) from a given origin into the
  scene.
\<close>

record Stage =
  getWorldDirection :: Vector3
  applyEuler :: "Vector3 \<Rightarrow> Vector3"
  intersectObjects :: "Vector3 \<Rightarrow> Intersection list"

text \<open>
  The fields of \<^verbatim>\<open>CameraController\<close> that movement and collision use;
  \<open>cameraPosition\<close> is \<^verbatim>\<open>this.camera.position\<close>.
\<close>

record CameraController =
  terrain :: TerrainGenerator
  isFirstPerson :: bool
  moveSpeed :: real
  runMultiplier :: real
  keys :: Keys
  position :: Vector3
  velocity :: Vector3
  thirdPersonDistance :: real
  thirdPersonHeight :: real
  cameraPosition :: Vector3
  cameraTarget :: Vector3

subsection \<open>Operations\<close>

text \<open>\<^verbatim>\<open>updateCamera()\<close>\<close>

definition updateCamera :: "Stage \<Rightarrow> CameraController \<Rightarrow> CameraController" where
  "updateCamera env c =
     (if isFirstPerson c then c\<lparr>cameraPosition := position c\<rparr>
      else
        let offset = applyEuler env \<lparr>vx = 0, vy = 0, vz = thirdPersonDistance c\<rparr>;
            p = add_v (position c) offset
        in c\<lparr>cameraPosition := p\<lparr>vy := vy p + thirdPersonHeight c\<rparr>,
             cameraTarget := (position c)\<lparr>vy := vy (position c) + 2\<rparr>\<rparr>)"

text \<open>
  The constructor followed by \<^verbatim>\<open>init()\<close>: first person, speed 50, no key held, the
  position (0, 10, 0) with its height replaced by the terrain height at (0, 0) plus 2.
\<close>

definition CameraController_new :: "Stage \<Rightarrow> TerrainGenerator \<Rightarrow> CameraController" where
  "CameraController_new env t =
     updateCamera env
       \<lparr>terrain = t, isFirstPerson = True, moveSpeed = 50, runMultiplier = 2,
        keys = \<lparr>forward = False, backward = False, left = False, right = False,
                up = False, down = False, run = False\<rparr>,
        position = \<lparr>vx = 0, vy = getHeightAt t 0 0 + 2, vz = 0\<rparr>,
        velocity = \<lparr>vx = 0, vy = 0, vz = 0\<rparr>,
        thirdPersonDistance = 15, thirdPersonHeight = 5,
        cameraPosition = \<lparr>vx = 0, vy = 0, vz = 0\<rparr>,
        cameraTarget = \<lparr>vx = 0, vy = 0, vz = 0\<rparr>\<rparr>"

text \<open>
  \<^verbatim>\<open>updateMovement(deltaTime)\<close>. The horizontal components of the velocity are reset,
  the held directions are added, the vertical component is then overwritten from the
  up and down keys (up first), and the velocity is added to the position.
\<close>

definition updateMovement :: "Stage \<Rightarrow> real \<Rightarrow> CameraController \<Rightarrow> CameraController" where
  "updateMovement env deltaTime c =
     (let speed = moveSpeed c * (if run (keys c) then runMultiplier c else 1) * deltaTime;
          direction = (if isFirstPerson c then getWorldDirection env
                       else applyEuler env \<lparr>vx = 0, vy = 0, vz = - 1\<rparr>);
          rightward = normalize (crossVectors direction \<lparr>vx = 0, vy = 1, vz = 0\<rparr>);
          v0 = (velocity c)\<lparr>vx := 0, vz := 0\<rparr>;
          v1 = (if forward (keys c) then add_v v0 (multiplyScalar direction speed) else v0);
          v2 = (if backward (keys c) then add_v v1 (multiplyScalar direction (- speed)) else v1);
          v3 = (if left (keys c) then add_v v2 (multiplyScalar rightward (- speed)) else v2);
          v4 = (if right (keys c) then add_v v3 (multiplyScalar rightward speed) else v3);
          v5 = v4\<lparr>vy := (if up (keys c) then speed
                         else if down (keys c) then - speed else 0)\<rparr>
      in c\<lparr>velocity := v5, position := add_v (position c) v5\<rparr>)"

text \<open>
  \<^verbatim>\<open>checkObjectCollisions()\<close>: every hit that is not the terrain and is closer than 2
  sets the height to the hit point's height plus 2, in the order of the hits.
\<close>

definition collide :: "Vector3 \<Rightarrow> Intersection \<Rightarrow> Vector3" where
  "collide p i =
     (if objectName i = ''terrain'' then p
      else if distance i < 2 then p\<lparr>vy := vy (point i) + 2\<rparr>
      else p)"

definition checkObjectCollisions :: "Stage \<Rightarrow> CameraController \<Rightarrow> CameraController" where
  "checkObjectCollisions env c =
     (let intersects = intersectObjects env (position c)
      in c\<lparr>position := foldl collide (position c) intersects\<rparr>)"

text \<open>\<^verbatim>\<open>applyTerrainCollision()\<close>\<close>

definition applyTerrainCollision :: "Stage \<Rightarrow> CameraController \<Rightarrow> CameraController" where
  "applyTerrainCollision env c =
     (let terrainHeight = getHeightAt (terrain c) (vx (position c)) (vz (position c));
          minHeight = terrainHeight + 2;
          c1 = (if vy (position c) < minHeight
                then c\<lparr>position := (position c)\<lparr>vy := minHeight\<rparr>\<rparr>
                else c)
      in checkObjectCollisions env c1)"

text \<open>\<^verbatim>\<open>update(deltaTime)\<close> of the controller (the update of the page is left out).\<close>

definition CameraController_update :: "Stage \<Rightarrow> real \<Rightarrow> CameraController \<Rightarrow> CameraController" where
  "CameraController_update env deltaTime c =
     (let dt = (if deltaTime > 0.1 then 0.1 else deltaTime)
      in updateCamera env (applyTerrainCollision env (updateMovement env dt c)))"

text \<open>\<^verbatim>\<open>setPosition(position)\<close> and \<^verbatim>\<open>teleportTo(x, z)\<close>\<close>

definition setPosition :: "Stage \<Rightarrow> Vector3 \<Rightarrow> CameraController \<Rightarrow> CameraController" where
  "setPosition env p c = updateCamera env (c\<lparr>position := p\<rparr>)"

definition teleportTo :: "Stage \<Rightarrow> real \<Rightarrow> real \<Rightarrow> CameraController \<Rightarrow> CameraController" where
  "teleportTo env x z c =
     (let y = getHeightAt (terrain c) x z + 2
      in setPosition env \<lparr>vx = x, vy = y, vz = z\<rparr> c)"

text \<open>
  The invariant of the navigation state: the vertical position is at least the terrain
  height under it plus the eye height 2.
\<close>

definition above_terrain :: "CameraController \<Rightarrow> bool" where
  "above_terrain c \<longleftrightarrow>
     getHeightAt (terrain c) (vx (position c)) (vz (position c)) + 2 \<le> vy (position c)"

text \<open>No movement intent is held.\<close>

definition no_intent :: "Keys \<Rightarrow> bool" where
  "no_intent k \<longleftrightarrow>
     \<not> forward k \<and> \<not> backward k \<and> \<not> left k \<and> \<not> right k \<and> \<not> up k \<and> \<not> down k"

text \<open>
  The hits lie on the ray cast straight down from the origin: a hit at distance \<open>d\<close>
  is at height \<open>y - d\<close>.
\<close>

definition on_down_ray :: "Stage \<Rightarrow> bool" where
  "on_down_ray env \<longleftrightarrow>
     (\<forall>p. \<forall>i \<in> set (intersectObjects env p). vy (point i) = vy p - distance i)"

text \<open>
  No object other than the terrain is closer than 2 below the origin \<open>p\<close>: every hit
  of the ray cast down from \<open>p\<close> is the terrain or at distance 2 or more.
\<close>

definition nothing_under :: "Stage \<Rightarrow> Vector3 \<Rightarrow> bool" where
  "nothing_under env p \<longleftrightarrow>
     (\<forall>i \<in> set (intersectObjects env p). objectName i = ''terrain'' \<or> 2 \<le> distance i)"

section \<open>performance-optimizer.js: PerformanceOptimizer\<close>

subsection \<open>Scene objects\<close>

text \<open>\<^verbatim>\<open>THREE.Sphere\<close>\<close>

record Sphere =
  center :: Vector3
  radius :: real

text \<open>
  \<^verbatim>\<open>geometry.parameters\<close> of a parametric geometry: the three segment counts that
  \<^verbatim>\<open>createReducedDetail\<close> reads (\<open>None\<close> when the property is absent) and the other
  constructor arguments.
\<close>

record Parameters =
  radialSegments :: "real option"
  heightSegments :: "real option"
  widthSegments :: "real option"
  otherParameters :: "(string \<times> real) list"

record Geometry =
  parameters :: "Parameters option"
  boundingSphere :: "Sphere option"

text \<open>A standard material; a texture map is named by a string, \<open>None\<close> is \<^verbatim>\<open>null\<close>.\<close>

record Material =
  roughness :: real
  metalness :: real
  normalMap :: "string option"
  roughnessMap :: "string option"
  metalnessMap :: "string option"

text \<open>
  \<^verbatim>\<open>mesh.material\<close> is one material or an array of materials (one per geometry
  group).
\<close>

datatype MeshMaterial = OneMaterial Material | MaterialArray "Material list"

text \<open>
  The fields of a \<^verbatim>\<open>THREE.Object3D\<close> that the optimizer reads or writes. \<open>userType\<close> and
  \<open>originallyVisible\<close> are \<^verbatim>\<open>userData.type\<close> and \<^verbatim>\<open>userData.originallyVisible\<close>
  (\<open>None\<close> is \<^verbatim>\<open>undefined\<close>); \<open>obj_position\<close>, \<open>obj_rotation\<close> and \<open>obj_scale\<close> are
  \<^verbatim>\<open>position\<close>, \<^verbatim>\<open>rotation\<close> and \<^verbatim>\<open>scale\<close>. For a \<^verbatim>\<open>THREE.LOD\<close>, \<open>levels\<close> holds
  the distance of each level and the uuid of the level's object, and \<open>currentLevel\<close> the
  index of the level shown; other objects have no levels.
\<close>

record Object3D =
  uuid :: string
  isMesh :: bool
  isSprite :: bool
  visible :: bool
  userType :: "string option"
  originallyVisible :: "bool option"
  geometry :: "Geometry option"
  material :: "MeshMaterial option"
  obj_position :: Vector3
  obj_rotation :: Vector3
  obj_scale :: Vector3
  levels :: "(real \<times> string) list"
  currentLevel :: nat

text \<open>
  The scene graph: an object with its children. An object is identified by its uuid,
  and its parent is the node that has it among its children.
\<close>

datatype Node = Node (object: Object3D) (children: "Node list")

text \<open>
  What the optimizer calls in three.js, taken as inputs of the model: the uuid drawn for
  the copy of an object in the k-th construction of a call; whether \<^verbatim>\<open>clone()\<close> of an
  object, of a geometry or of a material throws; the constructor of a geometry's class
  applied to parameters (\<open>None\<close> when it throws); the size of an object's bounding box;
  \<^verbatim>\<open>computeBoundingSphere\<close>; the bounding sphere moved by the object's world matrix;
  the test of a sphere against the camera's frustum; and the distance from the camera
  to an object.
\<close>

record Three =
  generateUUID :: "nat \<Rightarrow> string \<Rightarrow> string"
  objectCloneThrows :: "Node \<Rightarrow> bool"
  geometryCloneThrows :: "Geometry \<Rightarrow> bool"
  materialCloneThrows :: "Material \<Rightarrow> bool"
  constructGeometry :: "Geometry \<Rightarrow> Parameters \<Rightarrow> Geometry option"
  boundingBoxSize :: "Node \<Rightarrow> Vector3"
  computeBoundingSphere :: "Geometry \<Rightarrow> Geometry"
  worldSphere :: "Object3D \<Rightarrow> Sphere \<Rightarrow> Sphere"
  intersectsSphere :: "Sphere \<Rightarrow> bool"
  cameraDistance :: "Object3D \<Rightarrow> real"

text \<open>\<^verbatim>\<open>scene.traverse(callback)\<close> for a callback that changes the object it visits.\<close>

fun traverse :: "(Object3D \<Rightarrow> Object3D) \<Rightarrow> Node \<Rightarrow> Node" where
  "traverse f (Node ob cs) = Node (f ob) (map (traverse f) cs)"

text \<open>The objects that a traversal visits, in its order.\<close>

fun objects :: "Node \<Rightarrow> Object3D list" where
  "objects (Node ob cs) = ob # concat (map objects cs)"

text \<open>
  \<^verbatim>\<open>object.clone()\<close>: the same fields, the children cloned too, each copy with the uuid
  drawn for it.
\<close>

fun clone :: "(string \<Rightarrow> string) \<Rightarrow> Node \<Rightarrow> Node" where
  "clone r (Node ob cs) =
     Node (ob\<lparr>uuid := r (uuid ob), levels := map (\<lambda>(d, u). (d, r u)) (levels ob)\<rparr>)
          (map (clone r) cs)"

text \<open>The object has a parent in the graph: it is a child of some node.\<close>

fun has_parent :: "string \<Rightarrow> Node \<Rightarrow> bool" where
  "has_parent u (Node ob cs) = (\<exists>c \<in> set cs. uuid (object c) = u \<or> has_parent u c)"

text \<open>\<^verbatim>\<open>object.parent.add(lod); object.parent.remove(object)\<close>\<close>

fun replace_in_parent :: "string \<Rightarrow> Node \<Rightarrow> Node \<Rightarrow> Node" where
  "replace_in_parent u lod (Node ob cs) =
     (if \<exists>c \<in> set cs. uuid (object c) = u
      then Node ob (filter (\<lambda>c. uuid (object c) \<noteq> u) cs @ [lod])
      else Node ob (map (replace_in_parent u lod) cs))"

text \<open>Applying a change to the node that has a given uuid.\<close>

fun modify_node :: "string \<Rightarrow> (Node \<Rightarrow> Node) \<Rightarrow> Node \<Rightarrow> Node" where
  "modify_node u f (Node ob cs) =
     (if uuid ob = u then f (Node ob cs) else Node ob (map (modify_node u f) cs))"

subsection \<open>THREE.LOD\<close>

text \<open>
  Modelled from the spec: \<^verbatim>\<open>THREE.LOD\<close> is code of three.js, which is not among the
  sources. Its level list is "an ordered list of (representation, minDistance) pairs,
  monotonically increasing in minDistance": \<^verbatim>\<open>addLevel(object, distance)\<close> inserts the
  level in front of the first level with a larger distance and makes the object a child
  of the LOD.
\<close>

fun insert_level :: "real \<times> string \<Rightarrow> (real \<times> string) list \<Rightarrow> (real \<times> string) list" where
  "insert_level e [] = [e]"
| "insert_level e (x # xs) = (if fst e < fst x then e # x # xs else x # insert_level e xs)"

fun addLevel :: "Node \<Rightarrow> real \<Rightarrow> Node \<Rightarrow> Node" where
  "addLevel level d (Node l cs) =
     Node (l\<lparr>levels := insert_level (\<bar>d\<bar>, uuid (object level)) (levels l)\<rparr>) (cs @ [level])"

text \<open>
  Modelled from the spec: the selection rule of \<^verbatim>\<open>THREE.LOD.update\<close>, "select the
  largest-index level whose minDistance \<le> distance" (level 0 when there is none).
\<close>

definition selectLevel :: "(real \<times> string) list \<Rightarrow> real \<Rightarrow> nat" where
  "selectLevel lv d =
     (case filter (\<lambda>i. fst (lv ! i) \<le> d) [0..<length lv] of
        [] \<Rightarrow> 0
      | i # rest \<Rightarrow> last (i # rest))"

text \<open>
  Modelled from the spec: \<^verbatim>\<open>lod.update(camera)\<close> at camera distance \<open>d\<close>. The selected
  level's object is made visible and the objects of the other levels invisible; "an
  object with zero additional levels is never swapped".
\<close>

fun LOD_update :: "real \<Rightarrow> Node \<Rightarrow> Node" where
  "LOD_update d (Node l cs) =
     (if length (levels l) > 1
      then
        let i = selectLevel (levels l) d;
            active = snd (levels l ! i)
        in Node (l\<lparr>currentLevel := i\<rparr>)
                (map (\<lambda>c. if uuid (object c) \<in> snd ` set (levels l)
                           then Node ((object c)\<lparr>visible := (uuid (object c) = active)\<rparr>) (children c)
                           else c) cs)
      else Node l cs)"

subsection \<open>State of the optimizer\<close>

record PerformanceStats =
  visibleObjects :: nat
  culledObjects :: nat
  averageFPS :: real
  frameCount :: nat

text \<open>
  \<open>scene\<close> is the scene graph and \<open>pixelRatio\<close> the renderer's pixel ratio.
  \<open>lodObjects\<close> is the \<^verbatim>\<open>Map\<close> from the uuid of a registered object to its LOD, in
  insertion order; the LOD lives in the scene graph and is referred to by its uuid.
\<close>

record PerformanceOptimizer =
  scene :: Node
  pixelRatio :: real
  lodEnabled :: bool
  lodDistances :: "real list"
  lodObjects :: "(string \<times> string) list"
  frustumCullingEnabled :: bool
  performanceStats :: PerformanceStats
  objectPools :: "string \<rightharpoonup> Node list"
  fpsHistory :: "real list"

text \<open>The constructor with \<^verbatim>\<open>init()\<close>, for a scene and a renderer's pixel ratio.\<close>

definition PerformanceOptimizer_new :: "Node \<Rightarrow> real \<Rightarrow> PerformanceOptimizer" where
  "PerformanceOptimizer_new sc ratio =
     \<lparr>scene = sc, pixelRatio = ratio, lodEnabled = True, lodDistances = [50, 150, 300],
      lodObjects = [], frustumCullingEnabled = True,
      performanceStats = \<lparr>visibleObjects = 0, culledObjects = 0, averageFPS = 60, frameCount = 0\<rparr>,
      objectPools = [''particles'' \<mapsto> [], ''temporary'' \<mapsto> []],
      fpsHistory = []\<rparr>"

subsection \<open>Detail levels\<close>

text \<open>A number property is truthy when it is present and not 0.\<close>

definition truthy :: "real option \<Rightarrow> bool" where
  "truthy v = (case v of None \<Rightarrow> False | Some k \<Rightarrow> k \<noteq> 0)"

text \<open>The segment counts scaled by the detail level, with their floors.\<close>

definition reduceParameters :: "real \<Rightarrow> Parameters \<Rightarrow> Parameters" where
  "reduceParameters detailLevel params =
     (let p1 = (if truthy (radialSegments params)
                then params\<lparr>radialSegments :=
                       map_option (\<lambda>k. max 3 (of_int \<lfloor>k * detailLevel\<rfloor>)) (radialSegments params)\<rparr>
                else params);
          p2 = (if truthy (heightSegments p1)
                then p1\<lparr>heightSegments :=
                       map_option (\<lambda>k. max 1 (of_int \<lfloor>k * detailLevel\<rfloor>)) (heightSegments p1)\<rparr>
                else p1);
          p3 = (if truthy (widthSegments p2)
                then p2\<lparr>widthSegments :=
                       map_option (\<lambda>k. max 1 (of_int \<lfloor>k * detailLevel\<rfloor>)) (widthSegments p2)\<rparr>
                else p2)
      in p3)"

text \<open>The simpler material.\<close>

definition simplifyMaterial :: "real \<Rightarrow> Material \<Rightarrow> Material" where
  "simplifyMaterial detailLevel m =
     (let m1 = m\<lparr>roughness := min 1 (roughness m * 1.2), metalness := max 0 (metalness m * 0.8)\<rparr>
      in if detailLevel < 0.5
         then m1\<lparr>normalMap := None, roughnessMap := None, metalnessMap := None\<rparr>
         else m1)"

text \<open>
  What is thrown: the TypeError of a call on something that has no such method or
  property, and an exception thrown inside a call of three.js.
\<close>

datatype error = TypeError | LibraryError

text \<open>
  The body of the \<^verbatim>\<open>try\<close> block of \<^verbatim>\<open>createReducedDetail\<close>, for an object with
  geometry \<open>g\<close>; \<open>Inl\<close> is an exception thrown in it. The object is cloned, then its
  geometry. The geometry is rebuilt only when it has parameters; without them the clone
  keeps the geometry of the object. A material is cloned and simplified; an array of
  materials has no \<^verbatim>\<open>clone\<close> method, so the call throws a TypeError.
\<close>

definition reducedDetailBody ::
  "Three \<Rightarrow> (string \<Rightarrow> string) \<Rightarrow> Node \<Rightarrow> Geometry \<Rightarrow> real \<Rightarrow> error + Node" where
  "reducedDetailBody lib r obj g detailLevel =
     (if objectCloneThrows lib obj then Inl LibraryError
      else
        let reduced = clone r obj
        in if geometryCloneThrows lib g then Inl LibraryError
           else
             case (case parameters g of
                     None \<Rightarrow> Inr g
                   | Some params \<Rightarrow>
                       (case constructGeometry lib g (reduceParameters detailLevel params) of
                          None \<Rightarrow> Inl LibraryError
                        | Some newGeometry \<Rightarrow> Inr newGeometry)) of
               Inl e \<Rightarrow> Inl e
             | Inr g' \<Rightarrow>
                 (case material (object reduced) of
                    None \<Rightarrow> Inr (Node ((object reduced)\<lparr>geometry := Some g'\<rparr>) (children reduced))
                  | Some (MaterialArray ms) \<Rightarrow> Inl TypeError
                  | Some (OneMaterial m) \<Rightarrow>
                      if materialCloneThrows lib m then Inl LibraryError
                      else Inr (Node ((object reduced)
                                        \<lparr>geometry := Some g',
                                         material := Some (OneMaterial (simplifyMaterial detailLevel m))\<rparr>)
                                     (children reduced))))"

text \<open>
  \<^verbatim>\<open>createReducedDetail(object, detailLevel)\<close>; \<open>None\<close> is \<^verbatim>\<open>null\<close>. Every exception
  of the body is caught and gives \<^verbatim>\<open>null\<close>.
\<close>

definition createReducedDetail :: "Three \<Rightarrow> (string \<Rightarrow> string) \<Rightarrow> Node \<Rightarrow> real \<Rightarrow> Node option" where
  "createReducedDetail lib r obj detailLevel =
     (if \<not> isMesh (object obj) then None
      else case geometry (object obj) of
        None \<Rightarrow> None
      | Some g \<Rightarrow>
          (case reducedDetailBody lib r obj g detailLevel of
             Inl e \<Rightarrow> None
           | Inr reduced \<Rightarrow> Some reduced))"

text \<open>
  \<^verbatim>\<open>createImpostor(object)\<close>: a sprite scaled to the largest extent of the object's
  bounding box. The picture drawn for the object's type and the sprite material are
  not modelled.
\<close>

definition createImpostor :: "Three \<Rightarrow> string \<Rightarrow> Node \<Rightarrow> Node" where
  "createImpostor lib u obj =
     (let sz = boundingBoxSize lib obj;
          maxSize = max (vx sz) (max (vy sz) (vz sz))
      in Node \<lparr>uuid = u, isMesh = False, isSprite = True, visible = True,
               userType = None, originallyVisible = None,
               geometry = Some \<lparr>parameters = None, boundingSphere = None\<rparr>, material = None,
               obj_position = \<lparr>vx = 0, vy = 0, vz = 0\<rparr>,
               obj_rotation = \<lparr>vx = 0, vy = 0, vz = 0\<rparr>,
               obj_scale = \<lparr>vx = maxSize, vy = maxSize, vz = 1\<rparr>,
               levels = [], currentLevel = 0\<rparr> [])"

text \<open>\<^verbatim>\<open>this.lodDistances[i]\<close> as the distance argument of \<^verbatim>\<open>addLevel\<close>, whose default is 0.\<close>

definition lodDistance :: "real list \<Rightarrow> int \<Rightarrow> real" where
  "lodDistance ds i = (case js_index ds i of None \<Rightarrow> 0 | Some d \<Rightarrow> d)"

text \<open>
  \<^verbatim>\<open>createLODForObject(object)\<close>. The levels take their distances from
  \<^verbatim>\<open>this.lodDistances\<close> at this moment. An exception of \<^verbatim>\<open>object.clone()\<close> is
  not caught here, and an object without a parent makes \<^verbatim>\<open>object.parent.add\<close> throw a
  TypeError; both happen before anything is registered.
\<close>

definition createLODForObject ::
  "Three \<Rightarrow> PerformanceOptimizer \<Rightarrow> Node \<Rightarrow> error + PerformanceOptimizer" where
  "createLODForObject lib s obj =
     (if \<not> isMesh (object obj) \<or> map_of (lodObjects s) (uuid (object obj)) \<noteq> None then Inr s
      else if objectCloneThrows lib obj then Inl LibraryError
      else
        let u = uuid (object obj);
            lod0 = Node \<lparr>uuid = generateUUID lib 0 u, isMesh = False, isSprite = False,
                         visible = True, userType = None, originallyVisible = None,
                         geometry = None, material = None,
                         obj_position = obj_position (object obj),
                         obj_rotation = obj_rotation (object obj),
                         obj_scale = obj_scale (object obj),
                         levels = [], currentLevel = 0\<rparr> [];
            highDetail = clone (generateUUID lib 1) obj;
            lod1 = addLevel highDetail 0 lod0;
            lod2 = (case createReducedDetail lib (generateUUID lib 2) obj 0.6 of
                      None \<Rightarrow> lod1
                    | Some mediumDetail \<Rightarrow> addLevel mediumDetail (lodDistance (lodDistances s) 0) lod1);
            lod3 = (case createReducedDetail lib (generateUUID lib 3) obj 0.3 of
                      None \<Rightarrow> lod2
                    | Some lowDetail \<Rightarrow> addLevel lowDetail (lodDistance (lodDistances s) 1) lod2);
            impostor = createImpostor lib (generateUUID lib 4 u) obj;
            lod4 = addLevel impostor (lodDistance (lodDistances s) 2) lod3
        in if \<not> has_parent u (scene s) then Inl TypeError
           else
             let lod = Node ((object lod4)\<lparr>userType := userType (object obj),
                                          originallyVisible := originallyVisible (object obj)\<rparr>)
                            (children lod4)
             in Inr (s\<lparr>scene := replace_in_parent u lod (scene s),
                       lodObjects := lodObjects s @ [(u, uuid (object lod))]\<rparr>))"

text \<open>\<^verbatim>\<open>updateLOD()\<close>: every registered LOD is updated for the camera.\<close>

definition updateLOD :: "Three \<Rightarrow> PerformanceOptimizer \<Rightarrow> PerformanceOptimizer" where
  "updateLOD lib s =
     s\<lparr>scene := foldl (\<lambda>sc entry.
                        modify_node (snd entry)
                          (\<lambda>n. LOD_update (cameraDistance lib (object n)) n) sc)
                     (scene s) (lodObjects s)\<rparr>"

subsection \<open>Object pools\<close>

text \<open>\<^verbatim>\<open>getFromPool(poolName)\<close>: the object popped (or \<^verbatim>\<open>null\<close>) and the new state.\<close>

definition getFromPool :: "string \<Rightarrow> PerformanceOptimizer \<Rightarrow> Node option \<times> PerformanceOptimizer" where
  "getFromPool poolName s =
     (case objectPools s poolName of
        None \<Rightarrow> (None, s)
      | Some pool \<Rightarrow>
          if length pool > 0
          then (Some (last pool), s\<lparr>objectPools := (objectPools s)(poolName \<mapsto> butlast pool)\<rparr>)
          else (None, s))"

text \<open>The reset that \<^verbatim>\<open>returnToPool\<close> applies to an object it keeps.\<close>

fun resetObject :: "Node \<Rightarrow> Node" where
  "resetObject (Node ob cs) =
     Node (ob\<lparr>obj_position := \<lparr>vx = 0, vy = 0, vz = 0\<rparr>,
              obj_rotation := \<lparr>vx = 0, vy = 0, vz = 0\<rparr>,
              obj_scale := \<lparr>vx = 1, vy = 1, vz = 1\<rparr>,
              visible := True\<rparr>) cs"

text \<open>\<^verbatim>\<open>returnToPool(poolName, object)\<close>\<close>

definition returnToPool :: "string \<Rightarrow> Node \<Rightarrow> PerformanceOptimizer \<Rightarrow> PerformanceOptimizer" where
  "returnToPool poolName obj s =
     (case objectPools s poolName of
        None \<Rightarrow> s
      | Some pool \<Rightarrow>
          if length pool < 100
          then s\<lparr>objectPools := (objectPools s)(poolName \<mapsto> pool @ [resetObject obj])\<rparr>
          else s)"

text \<open>A call on the pools, and a sequence of calls run in order.\<close>

datatype pool_call = GetFromPool string | ReturnToPool string Node

fun pool_step :: "PerformanceOptimizer \<Rightarrow> pool_call \<Rightarrow> PerformanceOptimizer" where
  "pool_step s (GetFromPool poolName) = snd (getFromPool poolName s)"
| "pool_step s (ReturnToPool poolName obj) = returnToPool poolName obj s"

definition pool_run :: "PerformanceOptimizer \<Rightarrow> pool_call list \<Rightarrow> PerformanceOptimizer" where
  "pool_run s calls = foldl pool_step s calls"

text \<open>No pool holds more than 100 objects.\<close>

definition pools_bounded :: "PerformanceOptimizer \<Rightarrow> bool" where
  "pools_bounded s \<longleftrightarrow> (\<forall>poolName pool. objectPools s poolName = Some pool \<longrightarrow> length pool \<le> 100)"

subsection \<open>Performance statistics and adaptive quality\<close>

text \<open>
  \<^verbatim>\<open>updatePerformanceStats()\<close>, without the page's counter: the mean of the samples,
  rounded by \<^verbatim>\<open>Math.round\<close>, and the samples cleared; nothing when there is no sample.
\<close>

definition updatePerformanceStats :: "PerformanceOptimizer \<Rightarrow> PerformanceOptimizer" where
  "updatePerformanceStats s =
     (if length (fpsHistory s) > 0
      then
        let avgFPS = sum_list (fpsHistory s) / real (length (fpsHistory s))
        in s\<lparr>performanceStats := (performanceStats s)\<lparr>averageFPS := of_int \<lfloor>avgFPS + 1 / 2\<rfloor>\<rparr>,
             fpsHistory := []\<rparr>
      else s)"

text \<open>\<^verbatim>\<open>adaptiveQuality()\<close>; the first argument is \<^verbatim>\<open>window.devicePixelRatio\<close>.\<close>

definition adaptiveQuality :: "real \<Rightarrow> PerformanceOptimizer \<Rightarrow> PerformanceOptimizer" where
  "adaptiveQuality devicePixelRatio s =
     (let avgFPS = averageFPS (performanceStats s);
          s1 = (if avgFPS < 30 \<and> pixelRatio s > 1
                then s\<lparr>pixelRatio := max 0.5 (pixelRatio s * 0.9)\<rparr>
                else if avgFPS > 55 \<and> pixelRatio s < devicePixelRatio
                then s\<lparr>pixelRatio := min devicePixelRatio (pixelRatio s * 1.1)\<rparr>
                else s)
      in if avgFPS < 25 then s1\<lparr>lodDistances := [30, 80, 150]\<rparr>
         else if avgFPS > 50 then s1\<lparr>lodDistances := [70, 200, 400]\<rparr>
         else s1)"

subsection \<open>Frustum culling\<close>

text \<open>
  The callback of the traversal in \<^verbatim>\<open>updateFrustumCulling()\<close>: the object after the
  visit, and whether it was tested against the frustum and with what result (\<open>None\<close>
  when the object is skipped). The visible flag found at the first test is kept in
  \<^verbatim>\<open>userData.originallyVisible\<close>.
\<close>

definition cullObject :: "Three \<Rightarrow> Object3D \<Rightarrow> Object3D \<times> bool option" where
  "cullObject lib ob =
     (if isMesh ob \<or> isSprite ob
      then
        let ob1 = (case geometry ob of
                     None \<Rightarrow> ob
                   | Some g \<Rightarrow> (case boundingSphere g of
                                  None \<Rightarrow> ob\<lparr>geometry := Some (computeBoundingSphere lib g)\<rparr>
                                | Some b \<Rightarrow> ob))
        in case (case geometry ob1 of None \<Rightarrow> None | Some g \<Rightarrow> boundingSphere g) of
             None \<Rightarrow> (ob1, None)
           | Some b \<Rightarrow>
               let sphere = worldSphere lib ob1 b;
                   isVisible = intersectsSphere lib sphere;
                   captured = (case originallyVisible ob1 of
                                 None \<Rightarrow> visible ob1
                               | Some v \<Rightarrow> v)
               in (ob1\<lparr>originallyVisible := Some captured, visible := (isVisible \<and> captured)\<rparr>,
                   Some isVisible)
      else (ob, None))"

text \<open>\<^verbatim>\<open>updateFrustumCulling()\<close>\<close>

definition updateFrustumCulling :: "Three \<Rightarrow> PerformanceOptimizer \<Rightarrow> PerformanceOptimizer" where
  "updateFrustumCulling lib s =
     (let results = map (cullObject lib) (objects (scene s));
          visibleCount = length (filter (\<lambda>res. snd res = Some True) results);
          culledCount = length (filter (\<lambda>res. snd res = Some False) results)
      in s\<lparr>scene := traverse (\<lambda>ob. fst (cullObject lib ob)) (scene s),
           performanceStats := (performanceStats s)\<lparr>visibleObjects := visibleCount,
                                                   culledObjects := culledCount\<rparr>\<rparr>)"

text \<open>
  \<^verbatim>\<open>toggleOptimization(type, enabled)\<close>; switching culling off restores the visible
  flag of every object that has \<^verbatim>\<open>userData.originallyVisible\<close>.
\<close>

definition restoreVisible :: "Object3D \<Rightarrow> Object3D" where
  "restoreVisible ob = (case originallyVisible ob of None \<Rightarrow> ob | Some v \<Rightarrow> ob\<lparr>visible := v\<rparr>)"

definition toggleOptimization :: "string \<Rightarrow> bool \<Rightarrow> PerformanceOptimizer \<Rightarrow> PerformanceOptimizer" where
  "toggleOptimization kind enabled s =
     (if kind = ''lod'' then s\<lparr>lodEnabled := enabled\<rparr>
      else if kind = ''culling''
      then
        let s1 = s\<lparr>frustumCullingEnabled := enabled\<rparr>
        in if \<not> enabled then s1\<lparr>scene := traverse restoreVisible (scene s1)\<rparr> else s1
      else s)"

section \<open>Concrete inputs\<close>

text \<open>
  A terrain of the constructor's size whose whole height grid holds one height, a stage
  with no object in the scene, a stage with a rock one unit below every origin, a stage
  whose only rock is hit one unit below the origins with x = 50, and the controller
  after construction on the flat terrain of height 3 and a call of \<^verbatim>\<open>setPosition\<close> to
  (0, y, 0).
\<close>

definition flat_terrain :: "real \<Rightarrow> TerrainGenerator" where
  "flat_terrain h = TerrainGenerator_new\<lparr>heightData := replicate 257 (replicate 257 h)\<rparr>"

definition open_stage :: Stage where
  "open_stage = \<lparr>getWorldDirection = \<lparr>vx = 0, vy = 0, vz = - 1\<rparr>, applyEuler = (\<lambda>v. v),
                  intersectObjects = (\<lambda>p. [])\<rparr>"

definition rock_stage :: Stage where
  "rock_stage = \<lparr>getWorldDirection = \<lparr>vx = 0, vy = 0, vz = - 1\<rparr>, applyEuler = (\<lambda>v. v),
                  intersectObjects = (\<lambda>p. [\<lparr>objectName = ''rock'', distance = 1, point = p\<lparr>vy := vy p - 1\<rparr>\<rparr>])\<rparr>"

definition far_rock_stage :: Stage where
  "far_rock_stage = \<lparr>getWorldDirection = \<lparr>vx = 0, vy = 0, vz = - 1\<rparr>, applyEuler = (\<lambda>v. v),
                      intersectObjects =
                        (\<lambda>p. if vx p = 50
                             then [\<lparr>objectName = ''rock'', distance = 1, point = p\<lparr>vy := vy p - 1\<rparr>\<rparr>]
                             else [])\<rparr>"

definition camera_at :: "real \<Rightarrow> CameraController" where
  "camera_at y = setPosition open_stage \<lparr>vx = 0, vy = y, vz = 0\<rparr>
                   (CameraController_new open_stage (flat_terrain 3))"

text \<open>
  Objects and a scene for the optimizer: a rock built from a parametric sphere, a mesh
  whose geometry has no parameters (as one loaded from a file), the same mesh with an
  array of two materials, a rock that its author made invisible, and a scene holding
  the two rocks.
\<close>

definition origin :: Vector3 where
  "origin = \<lparr>vx = 0, vy = 0, vz = 0\<rparr>"

definition rock_object :: Object3D where
  "rock_object =
     \<lparr>uuid = ''rock'', isMesh = True, isSprite = False, visible = True,
      userType = Some ''rock'', originallyVisible = None,
      geometry = Some \<lparr>parameters = Some \<lparr>radialSegments = None, heightSegments = Some 6,
                                            widthSegments = Some 8,
                                            otherParameters = [(''radius'', 2)]\<rparr>,
                        boundingSphere = None\<rparr>,
      material = Some (OneMaterial \<lparr>roughness = 0.9, metalness = 0.1,
                                     normalMap = Some ''bumps'',
                                     roughnessMap = None, metalnessMap = None\<rparr>),
      obj_position = \<lparr>vx = 3, vy = 0, vz = 0\<rparr>, obj_rotation = origin,
      obj_scale = \<lparr>vx = 1, vy = 1, vz = 1\<rparr>,
      levels = [], currentLevel = 0\<rparr>"



definition hidden_object :: Object3D where
  "hidden_object = rock_object\<lparr>uuid := ''hidden'', visible := False\<rparr>"

definition root_object :: Object3D where
  "root_object =
     \<lparr>uuid = ''scene'', isMesh = False, isSprite = False, visible = True,
      userType = None, originallyVisible = None, geometry = None, material = None,
      obj_position = origin, obj_rotation = origin, obj_scale = \<lparr>vx = 1, vy = 1, vz = 1\<rparr>,
      levels = [], currentLevel = 0\<rparr>"

definition small_scene :: Node where
  "small_scene = Node root_object [Node rock_object [], Node hidden_object []]"

text \<open>
  A stand-in for three.js: copies get the uuid of the original with a suffix, no clone
  throws, every geometry constructor succeeds, every bounding sphere has radius 2 around the object's
  position, the frustum is the half space of the points with x at most \<open>limit\<close>, and
  the camera is at distance \<open>d\<close> from every object.
\<close>

definition three_stub :: "real \<Rightarrow> real \<Rightarrow> Three" where
  "three_stub limit d =
     \<lparr>generateUUID = (\<lambda>k u. u @ ''-'' @ replicate (Suc k) (CHR ''c'')),
      objectCloneThrows = (\<lambda>n. False),
      geometryCloneThrows = (\<lambda>g. False),
      materialCloneThrows = (\<lambda>m. False),
      constructGeometry = (\<lambda>g params. Some (g\<lparr>parameters := Some params, boundingSphere := None\<rparr>)),
      boundingBoxSize = (\<lambda>n. \<lparr>vx = 4, vy = 3, vz = 4\<rparr>),
      computeBoundingSphere = (\<lambda>g. g\<lparr>boundingSphere := Some \<lparr>center = origin, radius = 2\<rparr>\<rparr>),
      worldSphere = (\<lambda>ob b. b\<lparr>center := add_v (center b) (obj_position ob)\<rparr>),
      intersectsSphere = (\<lambda>b. vx (center b) - radius b \<le> limit),
      cameraDistance = (\<lambda>ob. d)\<rparr>"

text \<open>
  The optimizer of the small scene after a second of samples of 20 frames per second;
  with a pool that holds 100 objects; after a culling pass with both rocks outside the
  frustum; after the rock has been registered with the LOD selector; and the last of
  these after a second of samples of 20 frames per second.
\<close>

definition low_fps_state :: "real \<Rightarrow> PerformanceOptimizer" where
  "low_fps_state ratio =
     updatePerformanceStats ((PerformanceOptimizer_new small_scene ratio)\<lparr>fpsHistory := [20, 20, 20]\<rparr>)"

definition full_pool_state :: PerformanceOptimizer where
  "full_pool_state =
     (PerformanceOptimizer_new small_scene 1)
       \<lparr>objectPools := [''particles'' \<mapsto> replicate 100 (resetObject (Node rock_object []))]\<rparr>"

definition culled_state :: PerformanceOptimizer where
  "culled_state = updateFrustumCulling (three_stub 0 40) (PerformanceOptimizer_new small_scene 1)"

definition registered_state :: PerformanceOptimizer where
  "registered_state =
     (case createLODForObject (three_stub 10 40) (PerformanceOptimizer_new small_scene 1)
             (Node rock_object []) of
        Inr s \<Rightarrow> s
      | Inl e \<Rightarrow> PerformanceOptimizer_new small_scene 1)"

definition registered_low_fps :: PerformanceOptimizer where
  "registered_low_fps = updatePerformanceStats (registered_state\<lparr>fpsHistory := [20, 20, 20]\<rparr>)"

section \<open>Properties of the height query\<close>

lemma grid_index_above:
  fixes c s :: real
  assumes "0 < s" and "s / 2 < c"
  shows "int n \<le> \<lfloor>((c + s / 2) / s) * real n\<rfloor>"
proof -
  have "1 \<le> (c + s / 2) / s"
    using assms by (simp add: field_simps)
  then have "1 * real n \<le> ((c + s / 2) / s) * real n"
    by (intro mult_right_mono) simp_all
  then show ?thesis
    by (simp add: le_floor_iff)
qed

lemma grid_index_below:
  fixes c s :: real
  assumes "0 < s" and "c < - (s / 2)"
  shows "\<lfloor>((c + s / 2) / s) * real n\<rfloor> < 0 \<or> n = 0"
proof (cases "n = 0")
  case True
  then show ?thesis by simp
next
  case False
  have "(c + s / 2) / s < 0"
    using assms by (simp add: field_simps)
  moreover have "0 < real n"
    using False by simp
  ultimately have "((c + s / 2) / s) * real n < 0"
    by (rule mult_neg_pos)
  then show ?thesis
    by (simp add: floor_less_iff)
qed

lemma getHeightAt_index_out:
  assumes "\<lfloor>((x + size_terrain t / 2) / size_terrain t) * real (segments t)\<rfloor> < 0
         \<or> int (segments t) \<le> \<lfloor>((x + size_terrain t / 2) / size_terrain t) * real (segments t)\<rfloor>
         \<or> \<lfloor>((z + size_terrain t / 2) / size_terrain t) * real (segments t)\<rfloor> < 0
         \<or> int (segments t) \<le> \<lfloor>((z + size_terrain t / 2) / size_terrain t) * real (segments t)\<rfloor>"
  shows "getHeightAt t x z = 0"
  using assms unfolding getHeightAt_def Let_def by auto

lemma getHeightAt_no_segments: "segments t = 0 \<Longrightarrow> getHeightAt t x z = 0"
  unfolding getHeightAt_def Let_def by simp

lemma getHeightAt_outside:
  assumes "0 < size_terrain t"
    and "x < - (size_terrain t / 2) \<or> size_terrain t / 2 < x
       \<or> z < - (size_terrain t / 2) \<or> size_terrain t / 2 < z"
  shows "getHeightAt t x z = 0"
proof (cases "segments t = 0")
  case True
  then show ?thesis by (rule getHeightAt_no_segments)
next
  case False
  from assms(2) show ?thesis
  proof (elim disjE)
    assume "x < - (size_terrain t / 2)"
    from grid_index_below [OF assms(1) this, of "segments t"] False
    show ?thesis by (intro getHeightAt_index_out) simp
  next
    assume "size_terrain t / 2 < x"
    from grid_index_above [OF assms(1) this, of "segments t"]
    show ?thesis by (intro getHeightAt_index_out) simp
  next
    assume "z < - (size_terrain t / 2)"
    from grid_index_below [OF assms(1) this, of "segments t"] False
    show ?thesis by (intro getHeightAt_index_out) simp
  next
    assume "size_terrain t / 2 < z"
    from grid_index_above [OF assms(1) this, of "segments t"]
    show ?thesis by (intro getHeightAt_index_out) simp
  qed
qed

lemma getHeightAt_inside:
  assumes "size_terrain t \<noteq> 0" and "heightData t \<noteq> []"
    and "nx = \<lfloor>((x + size_terrain t / 2) / size_terrain t) * real (segments t)\<rfloor>"
    and "nz = \<lfloor>((z + size_terrain t / 2) / size_terrain t) * real (segments t)\<rfloor>"
    and "0 \<le> nx" "nx < int (segments t)" "0 \<le> nz" "nz < int (segments t)"
    and "nx < int (length (heightData t))"
    and "nz < int (length (heightData t ! nat nx))"
  shows "getHeightAt t x z = heightData t ! nat nx ! nat nz"
  using assms unfolding getHeightAt_def Let_def js_index_def by simp

text \<open>
  Claim C1. For a terrain of positive size, the height query returns 0 at every (x, z)
  with a coordinate outside [-size/2, size/2]; it returns 0 whenever one of the grid
  indices floor(((coord + size/2) / size) * segments) is outside [0, segments); and when
  both indices are inside and the height grid has that cell, it returns the height stored
  in the cell (the nearest-cell lookup).
\<close>

theorem getHeightAt_domain:
  assumes "0 < size_terrain t"
  shows "(x < - (size_terrain t / 2) \<or> size_terrain t / 2 < x
          \<or> z < - (size_terrain t / 2) \<or> size_terrain t / 2 < z
            \<longrightarrow> getHeightAt t x z = 0)
       \<and> (\<lfloor>((x + size_terrain t / 2) / size_terrain t) * real (segments t)\<rfloor> < 0
          \<or> int (segments t) \<le> \<lfloor>((x + size_terrain t / 2) / size_terrain t) * real (segments t)\<rfloor>
          \<or> \<lfloor>((z + size_terrain t / 2) / size_terrain t) * real (segments t)\<rfloor> < 0
          \<or> int (segments t) \<le> \<lfloor>((z + size_terrain t / 2) / size_terrain t) * real (segments t)\<rfloor>
            \<longrightarrow> getHeightAt t x z = 0)
       \<and> (\<forall>nx nz.
            nx = \<lfloor>((x + size_terrain t / 2) / size_terrain t) * real (segments t)\<rfloor>
          \<and> nz = \<lfloor>((z + size_terrain t / 2) / size_terrain t) * real (segments t)\<rfloor>
          \<and> 0 \<le> nx \<and> nx < int (segments t) \<and> 0 \<le> nz \<and> nz < int (segments t)
          \<and> nx < int (length (heightData t)) \<and> nz < int (length (heightData t ! nat nx))
            \<longrightarrow> getHeightAt t x z = heightData t ! nat nx ! nat nz)"
proof (intro conjI impI allI)
  assume "x < - (size_terrain t / 2) \<or> size_terrain t / 2 < x
          \<or> z < - (size_terrain t / 2) \<or> size_terrain t / 2 < z"
  with assms show "getHeightAt t x z = 0"
    by (rule getHeightAt_outside)
next
  assume "\<lfloor>((x + size_terrain t / 2) / size_terrain t) * real (segments t)\<rfloor> < 0
          \<or> int (segments t) \<le> \<lfloor>((x + size_terrain t / 2) / size_terrain t) * real (segments t)\<rfloor>
          \<or> \<lfloor>((z + size_terrain t / 2) / size_terrain t) * real (segments t)\<rfloor> < 0
          \<or> int (segments t) \<le> \<lfloor>((z + size_terrain t / 2) / size_terrain t) * real (segments t)\<rfloor>"
  then show "getHeightAt t x z = 0"
    by (rule getHeightAt_index_out)
next
  fix nx nz
  assume h: "nx = \<lfloor>((x + size_terrain t / 2) / size_terrain t) * real (segments t)\<rfloor>
          \<and> nz = \<lfloor>((z + size_terrain t / 2) / size_terrain t) * real (segments t)\<rfloor>
          \<and> 0 \<le> nx \<and> nx < int (segments t) \<and> 0 \<le> nz \<and> nz < int (segments t)
          \<and> nx < int (length (heightData t)) \<and> nz < int (length (heightData t ! nat nx))"
  then have ne: "heightData t \<noteq> []" by auto
  from assms have nz: "size_terrain t \<noteq> 0" by simp
  from h show "getHeightAt t x z = heightData t ! nat nx ! nat nz"
    by (intro getHeightAt_inside [OF nz ne]) blast+
qed

text \<open>
  On the constructor's terrain with a one-cell grid: (600, 0) is outside the domain and
  gives 0; (-500, -500) maps to the cell (0, 0) and gives the height stored there.
\<close>

theorem getHeightAt_domain_witness:
  "0 < size_terrain (TerrainGenerator_new\<lparr>heightData := [ [7] ]\<rparr>)
   \<and> getHeightAt (TerrainGenerator_new\<lparr>heightData := [ [7] ]\<rparr>) 600 0 = 0
   \<and> getHeightAt (TerrainGenerator_new\<lparr>heightData := [ [7] ]\<rparr>) (- 500) (- 500) = 7"
  using getHeightAt_domain [of "TerrainGenerator_new\<lparr>heightData := [ [7] ]\<rparr>" 600 0]
    getHeightAt_domain [of "TerrainGenerator_new\<lparr>heightData := [ [7] ]\<rparr>" "- 500" "- 500"]
  by (simp add: TerrainGenerator_new_def)

section \<open>Properties of the camera controller\<close>

lemma flat_terrain_height: "getHeightAt (flat_terrain h) 0 0 = h"
  by (simp add: flat_terrain_def TerrainGenerator_new_def getHeightAt_def js_index_def)

lemma collide_xz: "vx (collide p i) = vx p \<and> vz (collide p i) = vz p"
  by (simp add: collide_def)

lemma foldl_collide_xz: "vx (foldl collide p hits) = vx p \<and> vz (foldl collide p hits) = vz p"
  by (induction hits arbitrary: p) (simp_all add: collide_xz)

lemma foldl_collide_ge:
  assumes "\<forall>i \<in> set hits. vy (point i) = y0 - distance i" and "y0 \<le> vy p"
  shows "y0 \<le> vy (foldl collide p hits)"
  using assms
proof (induction hits arbitrary: p)
  case Nil
  then show ?case by simp
next
  case (Cons i hits)
  have "y0 \<le> vy (collide p i)"
    using Cons.prems by (auto simp: collide_def)
  with Cons show ?case by simp
qed

lemma foldl_collide_none:
  assumes "\<forall>i \<in> set hits. objectName i = ''terrain'' \<or> 2 \<le> distance i"
  shows "foldl collide p hits = p"
  using assms by (induction hits arbitrary: p) (auto simp: collide_def)

lemma updateCamera_fields [simp]:
  "position (updateCamera env c) = position c"
  "terrain (updateCamera env c) = terrain c"
  "keys (updateCamera env c) = keys c"
  "isFirstPerson (updateCamera env c) = isFirstPerson c"
  by (simp_all add: updateCamera_def Let_def)

lemma updateCamera_first_person:
  "isFirstPerson c \<Longrightarrow> cameraPosition (updateCamera env c) = position c"
  by (simp add: updateCamera_def)

lemma checkObjectCollisions_fields [simp]:
  "terrain (checkObjectCollisions env c) = terrain c"
  "keys (checkObjectCollisions env c) = keys c"
  "isFirstPerson (checkObjectCollisions env c) = isFirstPerson c"
  "vx (position (checkObjectCollisions env c)) = vx (position c)"
  "vz (position (checkObjectCollisions env c)) = vz (position c)"
  by (simp_all add: checkObjectCollisions_def Let_def foldl_collide_xz)

lemma checkObjectCollisions_ge:
  assumes "on_down_ray env"
  shows "vy (position c) \<le> vy (position (checkObjectCollisions env c))"
proof -
  have "\<forall>i \<in> set (intersectObjects env (position c)). vy (point i) = vy (position c) - distance i"
    using assms by (simp add: on_down_ray_def)
  then show ?thesis
    by (simp add: checkObjectCollisions_def Let_def foldl_collide_ge)
qed

lemma checkObjectCollisions_none:
  assumes "nothing_under env (position c)"
  shows "position (checkObjectCollisions env c) = position c"
  using assms by (simp add: checkObjectCollisions_def Let_def nothing_under_def foldl_collide_none)

lemma applyTerrainCollision_fields [simp]:
  "terrain (applyTerrainCollision env c) = terrain c"
  "keys (applyTerrainCollision env c) = keys c"
  "isFirstPerson (applyTerrainCollision env c) = isFirstPerson c"
  "vx (position (applyTerrainCollision env c)) = vx (position c)"
  "vz (position (applyTerrainCollision env c)) = vz (position c)"
  by (simp_all add: applyTerrainCollision_def Let_def)

lemma applyTerrainCollision_above:
  assumes "on_down_ray env"
  shows "above_terrain (applyTerrainCollision env c)"
proof -
  let ?m = "getHeightAt (terrain c) (vx (position c)) (vz (position c)) + 2"
  show ?thesis
  proof (cases "vy (position c) < ?m")
    case True
    let ?c1 = "c\<lparr>position := (position c)\<lparr>vy := ?m\<rparr>\<rparr>"
    have "?m \<le> vy (position ?c1)" by simp
    also have "\<dots> \<le> vy (position (checkObjectCollisions env ?c1))"
      using assms by (rule checkObjectCollisions_ge)
    finally show ?thesis
      using True by (simp add: above_terrain_def applyTerrainCollision_def Let_def)
  next
    case False
    then have "?m \<le> vy (position c)" by simp
    also have "\<dots> \<le> vy (position (checkObjectCollisions env c))"
      using assms by (rule checkObjectCollisions_ge)
    finally show ?thesis
      using False by (simp add: above_terrain_def applyTerrainCollision_def Let_def)
  qed
qed

lemma applyTerrainCollision_none:
  assumes "nothing_under env
             ((position c)\<lparr>vy := max (vy (position c))
                (getHeightAt (terrain c) (vx (position c)) (vz (position c)) + 2)\<rparr>)"
  shows "position (applyTerrainCollision env c) =
           (position c)\<lparr>vy := max (vy (position c))
              (getHeightAt (terrain c) (vx (position c)) (vz (position c)) + 2)\<rparr>"
proof -
  let ?m = "getHeightAt (terrain c) (vx (position c)) (vz (position c)) + 2"
  show ?thesis
  proof (cases "vy (position c) < ?m")
    case True
    let ?c1 = "c\<lparr>position := (position c)\<lparr>vy := ?m\<rparr>\<rparr>"
    from True have mx: "max (vy (position c)) ?m = ?m" by simp
    with assms have "nothing_under env (position ?c1)" by simp
    then have "position (checkObjectCollisions env ?c1) = position ?c1"
      by (rule checkObjectCollisions_none)
    with True mx show ?thesis
      by (simp add: applyTerrainCollision_def Let_def)
  next
    case False
    then have mx: "max (vy (position c)) ?m = vy (position c)" by simp
    have same: "(position c)\<lparr>vy := vy (position c)\<rparr> = position c" by simp
    from assms mx same have "nothing_under env (position c)" by simp
    then have "position (checkObjectCollisions env c) = position c"
      by (rule checkObjectCollisions_none)
    with False mx same show ?thesis
      by (simp add: applyTerrainCollision_def Let_def)
  qed
qed

lemma applyTerrainCollision_ge:
  assumes "on_down_ray env"
  shows "vy (position c) \<le> vy (position (applyTerrainCollision env c))"
proof -
  let ?m = "getHeightAt (terrain c) (vx (position c)) (vz (position c)) + 2"
  show ?thesis
  proof (cases "vy (position c) < ?m")
    case True
    let ?c1 = "c\<lparr>position := (position c)\<lparr>vy := ?m\<rparr>\<rparr>"
    from True have "vy (position c) \<le> vy (position ?c1)" by simp
    also have "\<dots> \<le> vy (position (checkObjectCollisions env ?c1))"
      using assms by (rule checkObjectCollisions_ge)
    finally show ?thesis
      using True by (simp add: applyTerrainCollision_def Let_def)
  next
    case False
    have "vy (position c) \<le> vy (position (checkObjectCollisions env c))"
      using assms by (rule checkObjectCollisions_ge)
    then show ?thesis
      using False by (simp add: applyTerrainCollision_def Let_def)
  qed
qed

lemma above_terrain_updateCamera [simp]:
  "above_terrain (updateCamera env c) = above_terrain c"
  by (simp add: above_terrain_def)

lemma updateMovement_fields [simp]:
  "terrain (updateMovement env dt c) = terrain c"
  "keys (updateMovement env dt c) = keys c"
  "isFirstPerson (updateMovement env dt c) = isFirstPerson c"
  by (simp_all add: updateMovement_def Let_def)

lemma updateMovement_idle:
  assumes "no_intent (keys c)"
  shows "position (updateMovement env dt c) = position c"
  using assms by (simp add: updateMovement_def Let_def no_intent_def add_v_def)

lemma update_above:
  assumes "on_down_ray env"
  shows "above_terrain (CameraController_update env dt c)"
  using assms by (simp add: CameraController_update_def Let_def applyTerrainCollision_above)

lemma update_fields [simp]:
  "terrain (CameraController_update env dt c) = terrain c"
  "keys (CameraController_update env dt c) = keys c"
  "isFirstPerson (CameraController_update env dt c) = isFirstPerson c"
  by (simp_all add: CameraController_update_def Let_def)

lemma update_idle_xz:
  assumes "no_intent (keys c)"
  shows "vx (position (CameraController_update env dt c)) = vx (position c)"
    and "vz (position (CameraController_update env dt c)) = vz (position c)"
  using assms
  by (simp_all add: CameraController_update_def Let_def updateMovement_idle)

lemma update_idle_ge:
  assumes "no_intent (keys c)" and "on_down_ray env"
  shows "vy (position c) \<le> vy (position (CameraController_update env dt c))"
proof -
  let ?dt = "if dt > 0.1 then 0.1 else dt"
  have "vy (position (updateMovement env ?dt c))
          \<le> vy (position (applyTerrainCollision env (updateMovement env ?dt c)))"
    using assms(2) by (rule applyTerrainCollision_ge)
  then show ?thesis
    using assms(1) by (simp add: CameraController_update_def Let_def updateMovement_idle)
qed

lemma update_idle_once:
  assumes "no_intent (keys c)"
    and "nothing_under env
           ((position c)\<lparr>vy := max (vy (position c))
              (getHeightAt (terrain c) (vx (position c)) (vz (position c)) + 2)\<rparr>)"
  shows "position (CameraController_update env dt c) =
           (position c)\<lparr>vy := max (vy (position c))
              (getHeightAt (terrain c) (vx (position c)) (vz (position c)) + 2)\<rparr>"
proof -
  let ?dt = "if dt > 0.1 then 0.1 else dt"
  let ?c' = "updateMovement env ?dt c"
  have p: "position ?c' = position c"
    using assms(1) by (rule updateMovement_idle)
  have t: "terrain ?c' = terrain c" by simp
  from assms(2) p t
  have "nothing_under env
           ((position ?c')\<lparr>vy := max (vy (position ?c'))
              (getHeightAt (terrain ?c') (vx (position ?c')) (vz (position ?c')) + 2)\<rparr>)"
    by simp
  then have "position (applyTerrainCollision env ?c') =
           (position ?c')\<lparr>vy := max (vy (position ?c'))
              (getHeightAt (terrain ?c') (vx (position ?c')) (vz (position ?c')) + 2)\<rparr>"
    by (rule applyTerrainCollision_none)
  with p t show ?thesis
    by (simp add: CameraController_update_def Let_def)
qed

lemma update_idle_frame:
  assumes "no_intent (keys c)"
  shows "terrain ((CameraController_update env dt ^^ n) c) = terrain c
       \<and> keys ((CameraController_update env dt ^^ n) c) = keys c
       \<and> vx (position ((CameraController_update env dt ^^ n) c)) = vx (position c)
       \<and> vz (position ((CameraController_update env dt ^^ n) c)) = vz (position c)"
proof (induction n)
  case 0
  then show ?case by simp
next
  case (Suc n)
  let ?d = "(CameraController_update env dt ^^ n) c"
  from Suc assms have k: "no_intent (keys ?d)" by simp
  have "vx (position (CameraController_update env dt ?d)) = vx (position ?d)"
    and "vz (position (CameraController_update env dt ?d)) = vz (position ?d)"
    using k by (rule update_idle_xz)+
  with Suc show ?case by simp
qed

lemma update_idle_position:
  assumes "no_intent (keys c)"
    and "nothing_under env
           ((position c)\<lparr>vy := max (vy (position c))
              (getHeightAt (terrain c) (vx (position c)) (vz (position c)) + 2)\<rparr>)"
  shows "position ((CameraController_update env dt ^^ Suc n) c) =
           (position c)\<lparr>vy := max (vy (position c))
              (getHeightAt (terrain c) (vx (position c)) (vz (position c)) + 2)\<rparr>"
proof (induction n)
  case 0
  show ?case using assms by (simp add: update_idle_once)
next
  case (Suc n)
  let ?m = "getHeightAt (terrain c) (vx (position c)) (vz (position c)) + 2"
  let ?p = "(position c)\<lparr>vy := max (vy (position c)) ?m\<rparr>"
  let ?d = "(CameraController_update env dt ^^ Suc n) c"
  note fr = update_idle_frame [OF assms(1), where env = env and dt = dt and n = "Suc n"]
  from fr assms(1) have k: "no_intent (keys ?d)" by simp
  from Suc have pd: "position ?d = ?p" .
  have h: "getHeightAt (terrain ?d) (vx (position ?d)) (vz (position ?d)) + 2 = ?m"
    using fr by simp
  have "max (vy ?p) ?m = vy ?p" by simp
  then have tgt: "(position ?d)\<lparr>vy := max (vy (position ?d))
              (getHeightAt (terrain ?d) (vx (position ?d)) (vz (position ?d)) + 2)\<rparr> = ?p"
    unfolding h unfolding pd by simp
  from assms(2) have "nothing_under env
           ((position ?d)\<lparr>vy := max (vy (position ?d))
              (getHeightAt (terrain ?d) (vx (position ?d)) (vz (position ?d)) + 2)\<rparr>)"
    unfolding tgt .
  with k have "position (CameraController_update env dt ?d) =
           (position ?d)\<lparr>vy := max (vy (position ?d))
              (getHeightAt (terrain ?d) (vx (position ?d)) (vz (position ?d)) + 2)\<rparr>"
    by (rule update_idle_once)
  with tgt show ?case by simp
qed

lemma update_idle_never_lower:
  assumes "no_intent (keys c)" and "on_down_ray env"
  shows "vy (position c) \<le> vy (position ((CameraController_update env dt ^^ n) c))"
proof (induction n)
  case 0
  show ?case by simp
next
  case (Suc n)
  let ?d = "(CameraController_update env dt ^^ n) c"
  from update_idle_frame [OF assms(1), where env = env and dt = dt and n = n] assms(1)
  have k: "no_intent (keys ?d)" by simp
  have "vy (position ?d) \<le> vy (position (CameraController_update env dt ?d))"
    using k assms(2) by (rule update_idle_ge)
  with Suc show ?case by simp
qed

lemma update_idle_above:
  assumes "no_intent (keys c)" and "on_down_ray env"
  shows "getHeightAt (terrain c) (vx (position c)) (vz (position c)) + 2
           \<le> vy (position ((CameraController_update env dt ^^ Suc n) c))"
proof -
  let ?d = "(CameraController_update env dt ^^ Suc n) c"
  have "above_terrain (CameraController_update env dt ((CameraController_update env dt ^^ n) c))"
    using assms(2) by (rule update_above)
  then have "getHeightAt (terrain ?d) (vx (position ?d)) (vz (position ?d)) + 2 \<le> vy (position ?d)"
    by (simp add: above_terrain_def)
  with update_idle_frame [OF assms(1), where env = env and dt = dt and n = "Suc n"]
  show ?thesis by simp
qed

text \<open>
  Claim C4, as the code has it. With no movement intent held, any number of ticks leaves
  x and z where they were. When the hits of the downward probe lie on its ray, the
  height after any positive number of ticks is at least the terrain height h plus 2 and
  never lower than the starting height. When no object other than the terrain is closer
  than 2 under the camera, at the place the terrain clamp leaves it, the height after
  any positive number of ticks is the maximum of the starting height and h + 2: a start
  below h + 2 is raised to exactly h + 2 and a start at or above h + 2 stays where it is
  (nothing pulls the camera down).
\<close>

theorem update_without_input:
  assumes "no_intent (keys c)"
    and "h = getHeightAt (terrain c) (vx (position c)) (vz (position c))"
  shows "vx (position ((CameraController_update env dt ^^ n) c)) = vx (position c)
       \<and> vz (position ((CameraController_update env dt ^^ n) c)) = vz (position c)
       \<and> (on_down_ray env \<longrightarrow>
            h + 2 \<le> vy (position ((CameraController_update env dt ^^ Suc n) c))
          \<and> vy (position c) \<le> vy (position ((CameraController_update env dt ^^ Suc n) c)))
       \<and> (nothing_under env ((position c)\<lparr>vy := max (vy (position c)) (h + 2)\<rparr>) \<longrightarrow>
            vy (position ((CameraController_update env dt ^^ Suc n) c)) = max (vy (position c)) (h + 2))"
proof (intro conjI impI)
  show "vx (position ((CameraController_update env dt ^^ n) c)) = vx (position c)"
    using update_idle_frame [OF assms(1), where env = env and dt = dt and n = n] by simp
  show "vz (position ((CameraController_update env dt ^^ n) c)) = vz (position c)"
    using update_idle_frame [OF assms(1), where env = env and dt = dt and n = n] by simp
next
  assume "on_down_ray env"
  with assms(1) show "h + 2 \<le> vy (position ((CameraController_update env dt ^^ Suc n) c))"
    unfolding assms(2) by (rule update_idle_above)
next
  assume "on_down_ray env"
  with assms(1) show "vy (position c) \<le> vy (position ((CameraController_update env dt ^^ Suc n) c))"
    by (rule update_idle_never_lower)
next
  assume "nothing_under env ((position c)\<lparr>vy := max (vy (position c)) (h + 2)\<rparr>)"
  with assms(1)
  have "position ((CameraController_update env dt ^^ Suc n) c) =
          (position c)\<lparr>vy := max (vy (position c)) (h + 2)\<rparr>"
    unfolding assms(2) by (rule update_idle_position)
  then show "vy (position ((CameraController_update env dt ^^ Suc n) c)) = max (vy (position c)) (h + 2)"
    by simp
qed

lemma camera_at_simps:
  "position (camera_at y) = \<lparr>vx = 0, vy = y, vz = 0\<rparr>"
  "terrain (camera_at y) = flat_terrain 3"
  "no_intent (keys (camera_at y))"
  by (simp_all add: camera_at_def setPosition_def CameraController_new_def no_intent_def)

lemma camera_at_first: "isFirstPerson (camera_at y)"
  by (simp add: camera_at_def setPosition_def CameraController_new_def)

lemma nothing_under_open: "nothing_under open_stage p"
  by (simp add: nothing_under_def open_stage_def)

lemma far_rock_stage_simps:
  "on_down_ray far_rock_stage"
  "vx p \<noteq> 50 \<Longrightarrow> nothing_under far_rock_stage p"
  "vx p = 50 \<Longrightarrow> \<not> nothing_under far_rock_stage p"
  by (simp_all add: on_down_ray_def nothing_under_def far_rock_stage_def)

lemma on_down_ray_rock: "on_down_ray rock_stage"
  by (simp add: on_down_ray_def rock_stage_def)

text \<open>
  Over terrain height 3 at (0, 0), in a scene whose rock lies elsewhere (under x = 50):
  a camera at height 10 is still at height 10 after three ticks, and a camera at height
  4 is raised to 5 and stays there. With a rock one unit under the camera the height
  after a tick is still at least 5.
\<close>

theorem update_without_input_witness:
  "no_intent (keys (camera_at 10))
   \<and> getHeightAt (terrain (camera_at 10)) 0 0 = 3
   \<and> on_down_ray far_rock_stage
   \<and> \<not> nothing_under far_rock_stage \<lparr>vx = 50, vy = 10, vz = 0\<rparr>
   \<and> nothing_under far_rock_stage \<lparr>vx = 0, vy = 10, vz = 0\<rparr>
   \<and> nothing_under far_rock_stage \<lparr>vx = 0, vy = 5, vz = 0\<rparr>
   \<and> vy (position ((CameraController_update far_rock_stage (1/60) ^^ Suc 2) (camera_at 10))) = 10
   \<and> vy (position ((CameraController_update far_rock_stage (1/60) ^^ Suc 2) (camera_at 4))) = 5
   \<and> on_down_ray rock_stage
   \<and> 5 \<le> vy (position ((CameraController_update rock_stage (1/60) ^^ Suc 0) (camera_at 4)))"
  using update_without_input [where c = "camera_at 10" and env = far_rock_stage and dt = "1/60"
      and n = 2 and h = 3]
    update_without_input [where c = "camera_at 4" and env = far_rock_stage and dt = "1/60"
      and n = 2 and h = 3]
    update_without_input [where c = "camera_at 4" and env = rock_stage and dt = "1/60"
      and n = 0 and h = 3]
  by (simp add: camera_at_simps far_rock_stage_simps on_down_ray_rock flat_terrain_height)

text \<open>
  The scenario of the claim: terrain height 3 at (0, 0), camera at (0, 10, 0), no input.
  After one update the height is 10, and the camera is not at height 5.
\<close>

theorem update_gravity_counterexample:
  "getHeightAt (terrain (camera_at 10)) 0 0 = 3
   \<and> position (camera_at 10) = \<lparr>vx = 0, vy = 10, vz = 0\<rparr>
   \<and> no_intent (keys (camera_at 10))
   \<and> vy (position (CameraController_update open_stage (1/60) (camera_at 10))) = 10
   \<and> vy (cameraPosition (CameraController_update open_stage (1/60) (camera_at 10))) \<noteq> 5"
proof -
  have p: "position (CameraController_update open_stage (1/60) (camera_at 10)) =
             \<lparr>vx = 0, vy = 10, vz = 0\<rparr>"
    using update_idle_once [where c = "camera_at 10" and env = open_stage and dt = "1/60"]
    by (simp add: camera_at_simps flat_terrain_height nothing_under_open)
  have f: "isFirstPerson (applyTerrainCollision open_stage
             (updateMovement open_stage (if (1/60::real) > 0.1 then 0.1 else 1/60) (camera_at 10)))"
    by (simp add: camera_at_first)
  have "cameraPosition (CameraController_update open_stage (1/60) (camera_at 10)) =
          position (CameraController_update open_stage (1/60) (camera_at 10))"
    unfolding CameraController_update_def Let_def
    using f by (simp add: updateCamera_first_person)
  with p show ?thesis
    by (simp add: camera_at_simps flat_terrain_height)
qed

text \<open>
  Claim C5, as the code has it. When the hits of the downward probe lie on the probe's
  ray, the vertical position is at least the terrain height plus 2 after construction,
  after every per-tick update and after every \<^verbatim>\<open>teleportTo\<close>, from any state.
  \<^verbatim>\<open>setPosition\<close> stores the position it is given, unchanged, so the bound holds after
  it exactly when the given position satisfies it.
\<close>

theorem position_operations_invariant:
  assumes "on_down_ray env"
  shows "above_terrain (CameraController_new env t)
       \<and> above_terrain (CameraController_update env dt c)
       \<and> above_terrain (teleportTo env x z c)
       \<and> position (setPosition env p c) = p
       \<and> terrain (setPosition env p c) = terrain c
       \<and> above_terrain (setPosition env p c) = (getHeightAt (terrain c) (vx p) (vz p) + 2 \<le> vy p)"
proof (intro conjI)
  show "above_terrain (CameraController_new env t)"
    by (simp add: above_terrain_def CameraController_new_def)
  show "above_terrain (CameraController_update env dt c)"
    using assms by (rule update_above)
  show "above_terrain (teleportTo env x z c)"
    by (simp add: teleportTo_def setPosition_def Let_def above_terrain_def)
  show "position (setPosition env p c) = p"
    by (simp add: setPosition_def)
  show "terrain (setPosition env p c) = terrain c"
    by (simp add: setPosition_def)
  show "above_terrain (setPosition env p c) = (getHeightAt (terrain c) (vx p) (vz p) + 2 \<le> vy p)"
    by (simp add: setPosition_def above_terrain_def)
qed

theorem position_operations_invariant_witness:
  "on_down_ray rock_stage
   \<and> above_terrain (CameraController_update rock_stage (1/60) (camera_at 4))
   \<and> above_terrain (teleportTo rock_stage 10 20 (camera_at 4))
   \<and> position (setPosition rock_stage \<lparr>vx = 0, vy = 7, vz = 0\<rparr> (camera_at 4)) = \<lparr>vx = 0, vy = 7, vz = 0\<rparr>"
  using position_operations_invariant [where env = rock_stage and dt = "1/60" and c = "camera_at 4"
      and x = 10 and z = 20 and p = "\<lparr>vx = 0, vy = 7, vz = 0\<rparr>"]
  by (simp add: on_down_ray_rock)

text \<open>
  From the state after construction, which satisfies the bound, \<^verbatim>\<open>setPosition\<close> to
  (0, 0, 0) over terrain height 3 leaves the camera below the terrain height plus 2.
\<close>

theorem setPosition_invariant_counterexample:
  "above_terrain (CameraController_new open_stage (flat_terrain 3))
   \<and> \<not> above_terrain (setPosition open_stage \<lparr>vx = 0, vy = 0, vz = 0\<rparr>
                          (CameraController_new open_stage (flat_terrain 3)))"
  by (simp add: above_terrain_def setPosition_def CameraController_new_def flat_terrain_height)

section \<open>Properties of the optimizer\<close>

subsection \<open>Adaptive quality\<close>

lemma low_fps_state_simps:
  "averageFPS (performanceStats (low_fps_state r)) = 20"
  "pixelRatio (low_fps_state r) = r"
  by (simp_all add: low_fps_state_def updatePerformanceStats_def PerformanceOptimizer_new_def Let_def)

lemma adaptiveQuality_reduces_high_ratio:
  assumes "averageFPS (performanceStats s) < 30" and "1 < pixelRatio s"
  shows "pixelRatio (adaptiveQuality dpr s) = pixelRatio s * 0.9"
  using assms by (simp add: adaptiveQuality_def Let_def max_def)

text \<open>
  Claim C3 says that below 30 frames per second every resolution scale above 0.5 is
  reduced by 10%, down to the floor 0.5. What \<^verbatim>\<open>adaptiveQuality\<close> does: below 30 frames
  per second a pixel ratio of at most 1 is left as it is, and a pixel ratio above 0.9
  stays above 0.9, so the floor 0.5 of the reduction is never reached from there.
\<close>

theorem adaptiveQuality_keeps_low_ratio:
  assumes "averageFPS (performanceStats s) < 30"
  shows "(pixelRatio s \<le> 1 \<longrightarrow> pixelRatio (adaptiveQuality dpr s) = pixelRatio s)
       \<and> (0.9 < pixelRatio s \<longrightarrow> 0.9 < pixelRatio (adaptiveQuality dpr s))"
proof (intro conjI impI)
  assume "pixelRatio s \<le> 1"
  with assms show "pixelRatio (adaptiveQuality dpr s) = pixelRatio s"
    by (simp add: adaptiveQuality_def Let_def)
next
  assume h: "0.9 < pixelRatio s"
  show "0.9 < pixelRatio (adaptiveQuality dpr s)"
  proof (cases "1 < pixelRatio s")
    case True
    with assms have "pixelRatio (adaptiveQuality dpr s) = pixelRatio s * 0.9"
      by (rule adaptiveQuality_reduces_high_ratio)
    with True show ?thesis by simp
  next
    case False
    with assms have "pixelRatio (adaptiveQuality dpr s) = pixelRatio s"
      by (simp add: adaptiveQuality_def Let_def)
    with h show ?thesis by simp
  qed
qed

text \<open>
  At 20 frames per second and pixel ratio 1, which is above 0.5, the pixel ratio after
  the adaptation is still 1, not 0.9; from pixel ratio 2 one step gives 1.8.
\<close>

theorem adaptiveQuality_keeps_low_ratio_witness:
  "averageFPS (performanceStats (low_fps_state 1)) < 30
   \<and> 0.5 < pixelRatio (low_fps_state 1)
   \<and> pixelRatio (adaptiveQuality 1 (low_fps_state 1)) = 1
   \<and> 0.9 < pixelRatio (adaptiveQuality 1 (low_fps_state 1))
   \<and> pixelRatio (adaptiveQuality 2 (low_fps_state 2)) = 1.8"
  using adaptiveQuality_keeps_low_ratio [of "low_fps_state 1" 1]
    adaptiveQuality_reduces_high_ratio [of "low_fps_state 2" 2]
  by (simp add: low_fps_state_simps)

subsection \<open>Object pools\<close>

lemma pools_bounded_new: "pools_bounded (PerformanceOptimizer_new sc ratio)"
  by (simp add: pools_bounded_def PerformanceOptimizer_new_def)

lemma pools_bounded_return:
  assumes "pools_bounded s"
  shows "pools_bounded (returnToPool poolName obj s)"
  using assms unfolding pools_bounded_def returnToPool_def
  by (auto split: option.splits)

lemma pools_bounded_get:
  assumes "pools_bounded s"
  shows "pools_bounded (snd (getFromPool poolName s))"
  using assms unfolding pools_bounded_def getFromPool_def
  by (fastforce split: option.splits if_splits)

lemma pools_bounded_step:
  "pools_bounded s \<Longrightarrow> pools_bounded (pool_step s call)"
  by (cases call) (simp_all add: pools_bounded_return pools_bounded_get)

lemma pools_bounded_run:
  "pools_bounded s \<Longrightarrow> pools_bounded (pool_run s calls)"
  unfolding pool_run_def
  by (induction calls arbitrary: s) (simp_all add: pools_bounded_step)

text \<open>
  Claim C10. Starting from the pools the constructor sets up, and from any state whose
  pools hold at most 100 objects, no sequence of \<^verbatim>\<open>getFromPool\<close> and \<^verbatim>\<open>returnToPool\<close>
  calls makes a pool longer than 100. \<^verbatim>\<open>returnToPool\<close> leaves the state unchanged when
  the named pool holds 100 objects or more, and otherwise appends the object with its
  position, rotation, scale and visibility reset.
\<close>

theorem pools_never_exceed_100:
  "pools_bounded (pool_run (PerformanceOptimizer_new sc ratio) calls)
   \<and> (pools_bounded s \<longrightarrow> pools_bounded (pool_run s calls))
   \<and> (objectPools s poolName = Some pool \<and> 100 \<le> length pool
        \<longrightarrow> returnToPool poolName obj s = s)
   \<and> (objectPools s poolName = Some pool \<and> length pool < 100
        \<longrightarrow> objectPools (returnToPool poolName obj s) poolName = Some (pool @ [resetObject obj]))
   \<and> obj_position (object (resetObject obj)) = \<lparr>vx = 0, vy = 0, vz = 0\<rparr>
   \<and> obj_rotation (object (resetObject obj)) = \<lparr>vx = 0, vy = 0, vz = 0\<rparr>
   \<and> obj_scale (object (resetObject obj)) = \<lparr>vx = 1, vy = 1, vz = 1\<rparr>
   \<and> visible (object (resetObject obj))"
proof (intro conjI impI)
  show "pools_bounded (pool_run (PerformanceOptimizer_new sc ratio) calls)"
    by (rule pools_bounded_run) (rule pools_bounded_new)
  show "pools_bounded s \<Longrightarrow> pools_bounded (pool_run s calls)"
    by (rule pools_bounded_run)
  show "objectPools s poolName = Some pool \<and> 100 \<le> length pool \<Longrightarrow> returnToPool poolName obj s = s"
    by (simp add: returnToPool_def)
  show "objectPools s poolName = Some pool \<and> length pool < 100
        \<Longrightarrow> objectPools (returnToPool poolName obj s) poolName = Some (pool @ [resetObject obj])"
    by (simp add: returnToPool_def)
qed (cases obj; simp)+

text \<open>
  A pool of 100 objects drops a returned object; an empty pool takes it, reset.
\<close>

theorem pools_never_exceed_100_witness:
  "pools_bounded full_pool_state
   \<and> pools_bounded (pool_run full_pool_state
        [ReturnToPool ''particles'' (Node hidden_object []), GetFromPool ''particles''])
   \<and> objectPools full_pool_state ''particles'' = Some (replicate 100 (resetObject (Node rock_object [])))
   \<and> returnToPool ''particles'' (Node hidden_object []) full_pool_state = full_pool_state
   \<and> objectPools (PerformanceOptimizer_new small_scene 1) ''temporary'' = Some []
   \<and> objectPools (returnToPool ''temporary'' (Node hidden_object []) (PerformanceOptimizer_new small_scene 1))
        ''temporary'' = Some [resetObject (Node hidden_object [])]
   \<and> visible (object (resetObject (Node hidden_object [])))"
proof -
  have b: "pools_bounded full_pool_state"
    by (simp add: pools_bounded_def full_pool_state_def)
  have p: "objectPools full_pool_state ''particles'' = Some (replicate 100 (resetObject (Node rock_object [])))"
    by (simp add: full_pool_state_def)
  have t: "objectPools (PerformanceOptimizer_new small_scene 1) ''temporary'' = Some []"
    by (simp add: PerformanceOptimizer_new_def)
  note th1 = pools_never_exceed_100 [where s = full_pool_state and poolName = "''particles''"
      and pool = "replicate 100 (resetObject (Node rock_object []))" and obj = "Node hidden_object []"
      and calls = "[ReturnToPool ''particles'' (Node hidden_object []), GetFromPool ''particles'']"]
  note th2 = pools_never_exceed_100 [where s = "PerformanceOptimizer_new small_scene 1"
      and poolName = "''temporary''" and pool = "[]" and obj = "Node hidden_object []"]
  from b p t th1 th2 show ?thesis by simp
qed

subsection \<open>Reduced detail\<close>







subsection \<open>Frustum culling\<close>

lemma objects_traverse: "objects (traverse f n) = map f (objects n)"
proof (induction n)
  case (Node ob cs)
  then have "concat (map (objects \<circ> traverse f) cs) = concat (map (map f \<circ> objects) cs)"
    by (induction cs) simp_all
  then show ?case
    by (simp add: map_concat comp_def)
qed

lemma objects_updateFrustumCulling:
  "objects (scene (updateFrustumCulling lib s)) = map (\<lambda>ob. fst (cullObject lib ob)) (objects (scene s))"
  by (simp add: updateFrustumCulling_def Let_def objects_traverse)

lemma cullObject_tested:
  assumes "isMesh ob \<or> isSprite ob"
    and "geometry ob = Some g"
    and "ob1 = (case boundingSphere g of
                  None \<Rightarrow> ob\<lparr>geometry := Some (computeBoundingSphere lib g)\<rparr>
                | Some b0 \<Rightarrow> ob)"
    and "geometry ob1 = Some g1"
    and "boundingSphere g1 = Some b"
  shows "cullObject lib ob =
           (ob1\<lparr>originallyVisible := Some (case originallyVisible ob of None \<Rightarrow> visible ob | Some v \<Rightarrow> v),
                 visible := (intersectsSphere lib (worldSphere lib ob1 b)
                             \<and> (case originallyVisible ob of None \<Rightarrow> visible ob | Some v \<Rightarrow> v))\<rparr>,
            Some (intersectsSphere lib (worldSphere lib ob1 b)))"
proof (cases "boundingSphere g")
  case None
  with assms show ?thesis
    by (simp add: cullObject_def Let_def split: option.splits)
next
  case (Some b')
  with assms have "ob1 = ob" "g1 = g" "b' = b" by simp_all
  with assms Some show ?thesis
    by (simp add: cullObject_def Let_def split: option.splits)
qed

text \<open>
  Claim C6. A culling pass visits every object of the scene. For a mesh or sprite whose
  geometry has a bounding sphere \<open>b\<close> (computed at the visit when it was missing), the
  visible flag after the pass is the frustum test of the sphere moved to world space
  and the captured flag, where the captured flag is \<^verbatim>\<open>originallyVisible\<close> when the
  object already has one and its visible flag otherwise. The captured flag is stored at
  the first pass and a later pass, with any frustum, neither changes it nor uses
  anything else for the visible flag. So an object outside the frustum is not visible
  and an object captured as invisible is never made visible.
\<close>

theorem culling_visibility:
  assumes "isMesh ob \<or> isSprite ob"
    and "geometry ob = Some g"
    and "ob1 = (case boundingSphere g of
                  None \<Rightarrow> ob\<lparr>geometry := Some (computeBoundingSphere lib g)\<rparr>
                | Some b0 \<Rightarrow> ob)"
    and "geometry ob1 = Some g1"
    and "boundingSphere g1 = Some b"
    and "captured = (case originallyVisible ob of None \<Rightarrow> visible ob | Some v \<Rightarrow> v)"
    and "pass1 = fst (cullObject lib ob)"
    and "pass2 = fst (cullObject lib' pass1)"
  shows "visible pass1 = (intersectsSphere lib (worldSphere lib ob1 b) \<and> captured)
       \<and> originallyVisible pass1 = Some captured
       \<and> visible pass2 = (intersectsSphere lib' (worldSphere lib' pass1 b) \<and> captured)
       \<and> originallyVisible pass2 = Some captured
       \<and> objects (scene (updateFrustumCulling lib s)) =
           map (\<lambda>ob. fst (cullObject lib ob)) (objects (scene s))"
proof -
  note first = cullObject_tested [OF assms(1-5)]
  have p1: "pass1 = ob1\<lparr>originallyVisible := Some captured,
                 visible := (intersectsSphere lib (worldSphere lib ob1 b) \<and> captured)\<rparr>"
    using first assms(6,7) by simp
  have m: "isMesh ob1 \<or> isSprite ob1"
    using assms(1,3) by (simp split: option.splits)
  then have m1: "isMesh pass1 \<or> isSprite pass1"
    using p1 by simp
  have g: "geometry pass1 = Some g1"
    using p1 assms(4) by simp
  have same: "pass1 = (case boundingSphere g1 of
                  None \<Rightarrow> pass1\<lparr>geometry := Some (computeBoundingSphere lib' g1)\<rparr>
                | Some b0 \<Rightarrow> pass1)"
    using assms(5) by simp
  note second = cullObject_tested [OF m1 g same g assms(5)]
  have ov: "originallyVisible pass1 = Some captured"
    using p1 by simp
  have p2: "pass2 = pass1\<lparr>originallyVisible := Some captured,
                 visible := (intersectsSphere lib' (worldSphere lib' pass1 b) \<and> captured)\<rparr>"
    using second assms(8) ov by simp
  have v1: "visible pass1 = (intersectsSphere lib (worldSphere lib ob1 b) \<and> captured)"
    using p1 by simp
  have v2: "visible pass2 = (intersectsSphere lib' (worldSphere lib' pass1 b) \<and> captured)"
    by (subst p2) simp
  have o2: "originallyVisible pass2 = Some captured"
    by (subst p2) simp
  from v1 ov v2 o2 show ?thesis
    by (simp add: objects_updateFrustumCulling)
qed

text \<open>
  A visible rock whose sphere is outside the frustum is hidden, and shown again by a
  pass whose frustum holds it; a rock that was invisible stays invisible though it is
  inside the frustum.
\<close>

theorem culling_visibility_witness:
  "(isMesh rock_object \<or> isSprite rock_object)
   \<and> visible rock_object
   \<and> visible (fst (cullObject (three_stub 0 40) rock_object)) = False
   \<and> originallyVisible (fst (cullObject (three_stub 0 40) rock_object)) = Some True
   \<and> visible (fst (cullObject (three_stub 10 40) (fst (cullObject (three_stub 0 40) rock_object)))) = True
   \<and> originallyVisible (fst (cullObject (three_stub 10 40) (fst (cullObject (three_stub 0 40) rock_object)))) = Some True
   \<and> (isMesh hidden_object \<or> isSprite hidden_object)
   \<and> visible hidden_object = False
   \<and> visible (fst (cullObject (three_stub 10 40) hidden_object)) = False
   \<and> originallyVisible (fst (cullObject (three_stub 10 40) hidden_object)) = Some False
   \<and> visible (fst (cullObject (three_stub 10 40) (fst (cullObject (three_stub 10 40) hidden_object)))) = False"
proof -
  let ?g = "\<lparr>parameters = Some \<lparr>radialSegments = None, heightSegments = Some 6,
                                   widthSegments = Some 8, otherParameters = [(''radius'', 2)]\<rparr>,
             boundingSphere = None\<rparr>"
  let ?b = "\<lparr>center = origin, radius = 2\<rparr>"
  have r': "isMesh rock_object" "geometry rock_object = Some ?g" "visible rock_object"
      "originallyVisible rock_object = None"
    by (simp_all add: rock_object_def)
  have h': "isMesh hidden_object" "geometry hidden_object = Some ?g" "\<not> visible hidden_object"
      "originallyVisible hidden_object = None"
    by (simp_all add: hidden_object_def rock_object_def)
  have c: "computeBoundingSphere (three_stub l d) ?g = ?g\<lparr>boundingSphere := Some ?b\<rparr>"
    "intersectsSphere (three_stub l d) (worldSphere (three_stub l d) ob ?b)
       = (vx (obj_position ob) - 2 \<le> l)" for l d ob
    by (simp_all add: three_stub_def add_v_def origin_def)
  have p: "obj_position (fst (cullObject lib ob)) = obj_position ob" for lib ob
    by (simp add: cullObject_def Let_def split: option.splits)
  have x: "vx (obj_position rock_object) = 3" "vx (obj_position hidden_object) = 3"
    by (simp_all add: hidden_object_def rock_object_def)
  note r = culling_visibility [where ob = rock_object and lib = "three_stub 0 40"
      and lib' = "three_stub 10 40" and g = ?g and b = ?b
      and ?g1.0 = "?g\<lparr>boundingSphere := Some ?b\<rparr>", OF _ _ refl _ _ refl refl refl]
  note h = culling_visibility [where ob = hidden_object and lib = "three_stub 10 40"
      and lib' = "three_stub 10 40" and g = ?g and b = ?b
      and ?g1.0 = "?g\<lparr>boundingSphere := Some ?b\<rparr>", OF _ _ refl _ _ refl refl refl]
  from r r' c p x have "visible (fst (cullObject (three_stub 0 40) rock_object)) = False
   \<and> originallyVisible (fst (cullObject (three_stub 0 40) rock_object)) = Some True
   \<and> visible (fst (cullObject (three_stub 10 40) (fst (cullObject (three_stub 0 40) rock_object)))) = True
   \<and> originallyVisible (fst (cullObject (three_stub 10 40) (fst (cullObject (three_stub 0 40) rock_object)))) = Some True"
    by simp
  moreover from h h' c p x have "visible (fst (cullObject (three_stub 10 40) hidden_object)) = False
   \<and> originallyVisible (fst (cullObject (three_stub 10 40) hidden_object)) = Some False
   \<and> visible (fst (cullObject (three_stub 10 40) (fst (cullObject (three_stub 10 40) hidden_object)))) = False"
    by simp
  ultimately show ?thesis using h' r' by simp
qed

text \<open>
  Claim C9. \<^verbatim>\<open>toggleOptimization('culling', false)\<close> switches culling off and visits every
  object of the scene: an object with a captured \<^verbatim>\<open>originallyVisible\<close> flag gets that
  flag as its visible flag, and an object without one is left unchanged.
\<close>

theorem culling_off_restores_visibility:
  "objects (scene (toggleOptimization ''culling'' False s)) =
     map (\<lambda>ob. case originallyVisible ob of None \<Rightarrow> ob | Some v \<Rightarrow> ob\<lparr>visible := v\<rparr>) (objects (scene s))
   \<and> \<not> frustumCullingEnabled (toggleOptimization ''culling'' False s)
   \<and> (\<forall>ob \<in> set (objects (scene (toggleOptimization ''culling'' False s))).
        \<forall>v. originallyVisible ob = Some v \<longrightarrow> visible ob = v)"
proof -
  have r: "restoreVisible = (\<lambda>ob. case originallyVisible ob of None \<Rightarrow> ob | Some v \<Rightarrow> ob\<lparr>visible := v\<rparr>)"
    by (simp add: restoreVisible_def fun_eq_iff)
  have o: "objects (scene (toggleOptimization ''culling'' False s)) = map restoreVisible (objects (scene s))"
    by (simp add: toggleOptimization_def Let_def objects_traverse)
  have "\<forall>ob \<in> set (map restoreVisible (objects (scene s))). \<forall>v. originallyVisible ob = Some v \<longrightarrow> visible ob = v"
    by (auto simp: restoreVisible_def split: option.splits)
  with o r show ?thesis
    by (simp add: toggleOptimization_def Let_def)
qed

lemma culled_state_objects:
  "map visible (objects (scene culled_state)) = [True, False, False]"
  "map originallyVisible (objects (scene culled_state)) = [None, Some True, Some False]"
  by (simp_all add: culled_state_def updateFrustumCulling_def PerformanceOptimizer_new_def small_scene_def
      cullObject_def Let_def root_object_def rock_object_def hidden_object_def three_stub_def
      add_v_def origin_def)

text \<open>
  After a pass that culled both rocks, switching culling off shows the visible rock
  again, keeps the invisible rock invisible and leaves the scene root alone.
\<close>

theorem culling_off_restores_visibility_witness:
  "map visible (objects (scene culled_state)) = [True, False, False]
   \<and> map originallyVisible (objects (scene culled_state)) = [None, Some True, Some False]
   \<and> map visible (objects (scene (toggleOptimization ''culling'' False culled_state))) = [True, True, False]"
proof -
  have "map visible (map (\<lambda>ob. case originallyVisible ob of None \<Rightarrow> ob | Some v \<Rightarrow> ob\<lparr>visible := v\<rparr>)
          (objects (scene culled_state))) = [True, True, False]"
    by (simp add: culled_state_def updateFrustumCulling_def PerformanceOptimizer_new_def small_scene_def
      cullObject_def Let_def root_object_def rock_object_def hidden_object_def three_stub_def
      add_v_def origin_def)
  with culling_off_restores_visibility [of culled_state] culled_state_objects show ?thesis
    by simp
qed

subsection \<open>Registration with the LOD selector\<close>

lemma createLODForObject_managed:
  assumes "map_of (lodObjects s) (uuid (object obj)) \<noteq> None"
  shows "createLODForObject lib s obj = Inr s"
  using assms by (simp add: createLODForObject_def)

lemma map_of_snoc: "map_of (xs @ [(k, v)]) k \<noteq> None"
  by (simp add: map_add_def split: option.splits)

lemma createLODForObject_registers:
  assumes "createLODForObject lib s obj = Inr s'" and "isMesh (object obj)"
  shows "map_of (lodObjects s') (uuid (object obj)) \<noteq> None"
proof (cases "map_of (lodObjects s) (uuid (object obj)) = None")
  case False
  with assms(1) have "s' = s" by (simp add: createLODForObject_def)
  with False show ?thesis by simp
next
  case True
  with assms have "\<exists>v. lodObjects s' = lodObjects s @ [(uuid (object obj), v)]"
    by (auto simp: createLODForObject_def Let_def split: if_splits)
  then obtain v where "lodObjects s' = lodObjects s @ [(uuid (object obj), v)]" ..
  then show ?thesis
    by (simp only: map_of_snoc not_False_eq_True)
qed

text \<open>
  Claim C8. \<^verbatim>\<open>createLODForObject\<close> on an object that is already managed returns with
  the state unchanged (registry, scene and everything else). A call that succeeds on a
  mesh leaves the mesh managed, so calling again after any successful call changes
  nothing.
\<close>

theorem createLODForObject_idempotent:
  "(map_of (lodObjects s) (uuid (object obj)) \<noteq> None \<longrightarrow> createLODForObject lib s obj = Inr s)
   \<and> (createLODForObject lib s obj = Inr s' \<longrightarrow> createLODForObject lib s' obj = Inr s')
   \<and> (createLODForObject lib s obj = Inr s' \<and> isMesh (object obj)
        \<longrightarrow> map_of (lodObjects s') (uuid (object obj)) \<noteq> None)"
proof (intro conjI impI)
  assume "map_of (lodObjects s) (uuid (object obj)) \<noteq> None"
  then show "createLODForObject lib s obj = Inr s" by (rule createLODForObject_managed)
next
  assume a: "createLODForObject lib s obj = Inr s'"
  show "createLODForObject lib s' obj = Inr s'"
  proof (cases "isMesh (object obj)")
    case True
    with a have "map_of (lodObjects s') (uuid (object obj)) \<noteq> None"
      by (rule createLODForObject_registers)
    then show ?thesis by (rule createLODForObject_managed)
  next
    case False
    then show ?thesis by (simp add: createLODForObject_def)
  qed
next
  assume "createLODForObject lib s obj = Inr s' \<and> isMesh (object obj)"
  then show "map_of (lodObjects s') (uuid (object obj)) \<noteq> None"
    using createLODForObject_registers by blast
qed

lemma lodObjects_registered: "lodObjects registered_state = [(''rock'', ''rock-c'')]"
  by code_simp

lemma registered_is_result:
  "createLODForObject (three_stub 10 40) (PerformanceOptimizer_new small_scene 1) (Node rock_object [])
     = Inr registered_state"
proof -
  have "has_parent ''rock'' small_scene"
    by (simp add: small_scene_def rock_object_def)
  then have "\<exists>s. createLODForObject (three_stub 10 40) (PerformanceOptimizer_new small_scene 1)
              (Node rock_object []) = Inr s"
    by (simp add: createLODForObject_def Let_def PerformanceOptimizer_new_def rock_object_def
        three_stub_def)
  then show ?thesis
    by (auto simp: registered_state_def)
qed

text \<open>
  Registering the rock of the small scene succeeds, and registering it again returns
  the same state.
\<close>

theorem createLODForObject_idempotent_witness:
  "createLODForObject (three_stub 10 40) (PerformanceOptimizer_new small_scene 1) (Node rock_object [])
     = Inr registered_state
   \<and> isMesh (object (Node rock_object []))
   \<and> map_of (lodObjects registered_state) (uuid (object (Node rock_object []))) \<noteq> None
   \<and> createLODForObject (three_stub 10 40) registered_state (Node rock_object []) = Inr registered_state"
proof -
  note idem = createLODForObject_idempotent [where lib = "three_stub 10 40"
      and s = "PerformanceOptimizer_new small_scene 1" and obj = "Node rock_object []"
      and s' = registered_state]
  have m: "isMesh (object (Node rock_object []))"
    by (simp add: rock_object_def)
  from idem registered_is_result
  have again: "createLODForObject (three_stub 10 40) registered_state (Node rock_object [])
                 = Inr registered_state"
    by blast
  from idem registered_is_result m
  have managed: "map_of (lodObjects registered_state) (uuid (object (Node rock_object []))) \<noteq> None"
    by blast
  from registered_is_result m managed again show ?thesis
    by (intro conjI)
qed

subsection \<open>Thresholds and the per-frame LOD update\<close>

lemma adaptiveQuality_scene:
  "scene (adaptiveQuality dpr s) = scene s" "lodObjects (adaptiveQuality dpr s) = lodObjects s"
  by (simp_all add: adaptiveQuality_def Let_def)

text \<open>
  Claim C2 says that a change of the LOD thresholds is taken into account at the next
  per-frame LOD evaluation of an object already registered. What the code does:
  \<^verbatim>\<open>adaptiveQuality\<close> replaces \<^verbatim>\<open>this.lodDistances\<close> and touches neither the scene nor
  the registry, the levels keep the distances copied at registration, and the scene
  after \<^verbatim>\<open>updateLOD\<close> is the same with and without the change of thresholds.
\<close>

theorem updateLOD_ignores_new_thresholds:
  "scene (updateLOD lib (adaptiveQuality dpr s)) = scene (updateLOD lib s)
   \<and> scene (adaptiveQuality dpr s) = scene s
   \<and> lodObjects (adaptiveQuality dpr s) = lodObjects s"
  by (simp add: updateLOD_def adaptiveQuality_scene)

lemma registered_low_fps_lod:
  "map (\<lambda>ob. (uuid ob, map fst (levels ob), currentLevel ob, visible ob))
         (objects (scene (updateLOD (three_stub 10 40) registered_low_fps))) =
     [(''scene'', [], 0, True), (''hidden'', [], 0, False),
      (''rock-c'', [0, 50, 150, 300], 0, True),
      (''rock-cc'', [], 0, True), (''rock-ccc'', [], 0, False),
      (''rock-cccc'', [], 0, False), (''rock-ccccc'', [], 0, False)]"
  by code_simp

lemma registered_low_fps_thresholds:
  "averageFPS (performanceStats registered_low_fps) = 20"
  "lodDistances registered_low_fps = [50, 150, 300]"
  "lodDistances (adaptiveQuality 1 registered_low_fps) = [30, 80, 150]"
  by code_simp+

lemma select_latest:
  "selectLevel [(0, ''rock-cc''), (30, ''rock-ccc''), (80, ''rock-cccc''), (150, ''rock-ccccc'')] 40 = 1"
  by code_simp

text \<open>
  The rock registered under the thresholds 50, 150, 300; the frame rate drops to 20 and
  the thresholds become 30, 80, 150; the camera is at distance 40. The LOD still holds
  the distances 0, 50, 150, 300 and shows level 0, the full detail, where the latest
  thresholds select level 1.
\<close>

theorem updateLOD_ignores_new_thresholds_witness:
  "lodDistances (adaptiveQuality 1 registered_low_fps) = [30, 80, 150]
   \<and> map (\<lambda>ob. (uuid ob, map fst (levels ob), currentLevel ob, visible ob))
         (objects (scene (updateLOD (three_stub 10 40) (adaptiveQuality 1 registered_low_fps)))) =
     [(''scene'', [], 0, True), (''hidden'', [], 0, False),
      (''rock-c'', [0, 50, 150, 300], 0, True),
      (''rock-cc'', [], 0, True), (''rock-ccc'', [], 0, False),
      (''rock-cccc'', [], 0, False), (''rock-ccccc'', [], 0, False)]
   \<and> selectLevel [(0, ''rock-cc''), (30, ''rock-ccc''), (80, ''rock-cccc''), (150, ''rock-ccccc'')] 40 = 1"
  using updateLOD_ignores_new_thresholds [of "three_stub 10 40" 1 registered_low_fps]
    registered_low_fps_lod registered_low_fps_thresholds select_latest
  by simp

end
